theory Spec2Isabelle
  imports Complex_Main
begin

section \<open>Errors\<close>

text \<open>
  A thrown JavaScript exception is a value: \<open>Error msg\<close> is \<^verbatim>\<open>new Error(msg)\<close> (also what
  the libraries throw: jsonwebtoken, the Redis client, the database driver), \<open>ZodError msgs\<close>
  is the validation library's error with the messages of its issues. A function that can
  throw returns \<open>error + 'a\<close>, \<open>Inl\<close> being the throw. Calls to the logger only write to
  the log and are left out.
\<close>

datatype error = Error string | ZodError "string list"

section \<open>lib/auth.ts\<close>

record JWTPayload =
  userId :: string
  email :: string
  isAdmin :: bool
  iat :: "nat option"
  exp :: "nat option"

text \<open>\<^verbatim>\<open>authHeader.split(' ')\<close>: the pieces between single spaces, never an empty array.\<close>

fun split_space :: "string \<Rightarrow> string list" where
  "split_space [] = [[]]"
| "split_space (c # cs) =
     (if c = CHR '' '' then [] # split_space cs
      else (case split_space cs of [] \<Rightarrow> [[c]] | p # ps \<Rightarrow> (c # p) # ps))"

text \<open>
  \<open>extractTokenFromHeader\<close>: an undefined or empty header, a header that is not exactly
  two pieces, a first piece other than \<open>Bearer\<close> and an empty second piece
  (\<^verbatim>\<open>parts[1] || null\<close>) all give null.
\<close>

definition extractTokenFromHeader :: "string option \<Rightarrow> string option" where
  "extractTokenFromHeader authHeader =
     (case authHeader of
        None \<Rightarrow> None
      | Some h \<Rightarrow>
          if h = [] then None
          else (case split_space h of
                  [p0, p1] \<Rightarrow>
                    if p0 \<noteq> ''Bearer'' then None
                    else if p1 = [] then None else Some p1
                | _ \<Rightarrow> None))"

text \<open>
  \<open>verifyAccessToken\<close>: \<^verbatim>\<open>jwt.verify(token, secret, {issuer, audience})\<close> belongs to the
  jsonwebtoken library; it is the parameter \<open>jwt_verify\<close>, which returns the payload or
  throws. The method catches every throw and returns null.
\<close>

definition verifyAccessToken ::
  "(string \<Rightarrow> error + JWTPayload) \<Rightarrow> string \<Rightarrow> JWTPayload option" where
  "verifyAccessToken jwt_verify token =
     (case jwt_verify token of Inl e \<Rightarrow> None | Inr payload \<Rightarrow> Some payload)"

section \<open>lib/context.ts\<close>

text \<open>
  Of the request context the guards read the \<open>user\<close> field only; the loaders, the cache
  and the database handle are the services modelled below, the rest is logging.
\<close>

record GraphQLContext =
  user :: "JWTPayload option"

text \<open>
  \<open>createContext\<close>, from the \<^verbatim>\<open>authorization\<close> header of the request: the user stays null
  unless the header is truthy, a token is extracted and the token verifies. The
  surrounding try/catch leaves the user null on any throw.
\<close>

definition createContext ::
  "(string \<Rightarrow> error + JWTPayload) \<Rightarrow> string option \<Rightarrow> GraphQLContext" where
  "createContext jwt_verify authorization =
     \<lparr>user =
        (case authorization of
           None \<Rightarrow> None
         | Some authHeader \<Rightarrow>
             if authHeader = [] then None
             else (case extractTokenFromHeader (Some authHeader) of
                     None \<Rightarrow> None
                   | Some token \<Rightarrow> verifyAccessToken jwt_verify token))\<rparr>"

definition requireAuth :: "GraphQLContext \<Rightarrow> error + JWTPayload" where
  "requireAuth context =
     (case user context of
        None \<Rightarrow> Inl (Error ''Authentication required'')
      | Some u \<Rightarrow> Inr u)"

definition requireAdmin :: "GraphQLContext \<Rightarrow> error + JWTPayload" where
  "requireAdmin context =
     (case requireAuth context of
        Inl e \<Rightarrow> Inl e
      | Inr u \<Rightarrow> if \<not> isAdmin u then Inl (Error ''Admin privileges required'') else Inr u)"

definition requireOwnership :: "GraphQLContext \<Rightarrow> string \<Rightarrow> error + JWTPayload" where
  "requireOwnership context resourceUserId =
     (case requireAuth context of
        Inl e \<Rightarrow> Inl e
      | Inr u \<Rightarrow>
          if userId u \<noteq> resourceUserId \<and> \<not> isAdmin u
          then Inl (Error ''Access denied: insufficient permissions'')
          else Inr u)"

section \<open>lib/loaders.ts (in context.ts): the batch functions\<close>

text \<open>
  The rows of the store, with the fields of the DAO interfaces. An optional field is an
  \<open>option\<close>; a count or a flag is an \<open>int\<close>, an amount a \<open>rat\<close>.
\<close>

record User =
  u_id :: string
  u_email :: string
  u_password_hash :: string
  u_first_name :: string
  u_last_name :: string
  u_phone :: "string option"
  u_address :: "string option"
  u_city :: "string option"
  u_state :: "string option"
  u_zip_code :: "string option"
  u_country :: "string option"
  u_is_admin :: int
  u_is_active :: int
  u_created_at :: string
  u_updated_at :: string

record CartItem =
  ci_id :: string
  ci_user_id :: string
  ci_product_id :: string
  ci_quantity :: int
  ci_created_at :: string
  ci_updated_at :: string

record Product =
  p_id :: string
  p_name :: string
  p_description :: "string option"
  p_price :: rat
  p_category :: string
  p_brand :: "string option"
  p_sku :: "string option"
  p_stock_quantity :: int
  p_is_active :: int
  p_seller_id :: string
  p_created_at :: string
  p_updated_at :: string

record Review =
  r_id :: string
  r_product_id :: string
  r_user_id :: string
  r_rating :: int
  r_title :: "string option"
  r_comment :: "string option"
  r_is_verified_purchase :: int
  r_created_at :: string
  r_updated_at :: string

record Order =
  o_id :: string
  o_user_id :: string
  o_status :: string
  o_total_amount :: rat
  o_shipping_address :: string
  o_billing_address :: string
  o_payment_method :: string
  o_payment_status :: string
  o_tracking_number :: "string option"
  o_notes :: "string option"
  o_created_at :: string
  o_updated_at :: string

record OrderItem =
  oi_id :: string
  oi_order_id :: string
  oi_product_id :: string
  oi_quantity :: int
  oi_unit_price :: rat
  oi_total_price :: rat
  oi_created_at :: string

text \<open>
  Each loader is built from a batch function: it awaits one fetch of the DAO for all the
  keys and maps the keys, in their order, to results. The fetch is the parameter; when it
  throws, the batch function throws the same error. \<^verbatim>\<open>rows.find(p) || null\<close> is
  \<open>find\<close>, a row being an object and so truthy.
\<close>

definition userById ::
  "(string list \<Rightarrow> error + User list) \<Rightarrow> string list \<Rightarrow> error + User option list" where
  "userById findByIds ids =
     (case findByIds ids of
        Inl e \<Rightarrow> Inl e
      | Inr users \<Rightarrow> Inr (map (\<lambda>i. find (\<lambda>user. u_id user = i) users) ids))"

definition productsByIds ::
  "(string list \<Rightarrow> error + Product list) \<Rightarrow> string list \<Rightarrow> error + Product option list" where
  "productsByIds findByIds ids =
     (case findByIds ids of
        Inl e \<Rightarrow> Inl e
      | Inr products \<Rightarrow> Inr (map (\<lambda>i. find (\<lambda>product. p_id product = i) products) ids))"

definition productsBySeller ::
  "(string list \<Rightarrow> error + Product list) \<Rightarrow> string list \<Rightarrow> error + Product list list" where
  "productsBySeller findBySellers sellerIds =
     (case findBySellers sellerIds of
        Inl e \<Rightarrow> Inl e
      | Inr products \<Rightarrow>
          Inr (map (\<lambda>sellerId. filter (\<lambda>product. p_seller_id product = sellerId) products)
                 sellerIds))"

definition ordersByUser ::
  "(string list \<Rightarrow> error + Order list) \<Rightarrow> string list \<Rightarrow> error + Order list list" where
  "ordersByUser findByUsers userIds =
     (case findByUsers userIds of
        Inl e \<Rightarrow> Inl e
      | Inr orders \<Rightarrow>
          Inr (map (\<lambda>userId. filter (\<lambda>order. o_user_id order = userId) orders) userIds))"

definition orderItemsByOrder ::
  "(string list \<Rightarrow> error + OrderItem list) \<Rightarrow> string list \<Rightarrow> error + OrderItem list list" where
  "orderItemsByOrder findItemsByOrders orderIds =
     (case findItemsByOrders orderIds of
        Inl e \<Rightarrow> Inl e
      | Inr orderItems \<Rightarrow>
          Inr (map (\<lambda>orderId. filter (\<lambda>item. oi_order_id item = orderId) orderItems)
                 orderIds))"

definition reviewsByProduct ::
  "(string list \<Rightarrow> error + Review list) \<Rightarrow> string list \<Rightarrow> error + Review list list" where
  "reviewsByProduct findReviewsByProducts productIds =
     (case findReviewsByProducts productIds of
        Inl e \<Rightarrow> Inl e
      | Inr reviews \<Rightarrow>
          Inr (map (\<lambda>productId. filter (\<lambda>review. r_product_id review = productId) reviews)
                 productIds))"

definition cartItemsByUser ::
  "(string list \<Rightarrow> error + CartItem list) \<Rightarrow> string list \<Rightarrow> error + CartItem list list" where
  "cartItemsByUser findCartItemsByUsers userIds =
     (case findCartItemsByUsers userIds of
        Inl e \<Rightarrow> Inl e
      | Inr cartItems \<Rightarrow>
          Inr (map (\<lambda>userId. filter (\<lambda>item. ci_user_id item = userId) cartItems) userIds))"

section \<open>lib/cache.ts\<close>

text \<open>
  The Redis client is the library's; the Redis server is outside the program. A client is
  the record of what each of its calls answers: a reply, or a throw.
\<close>

record RedisClient =
  client_get :: "string \<Rightarrow> error + string option"
  client_set :: "string \<Rightarrow> string \<Rightarrow> error + unit"
  client_setEx :: "string \<Rightarrow> int \<Rightarrow> string \<Rightarrow> error + unit"
  client_del :: "string \<Rightarrow> error + int"
  client_exists :: "string \<Rightarrow> error + int"

record CacheService =
  client :: "RedisClient option"
  isConnected :: bool

text \<open>
  Every operation returns its miss value at once when there is no client or the
  connection flag is off, and catches what the client throws. \<^verbatim>\<open>if (ttlSeconds)\<close> holds
  for a number other than zero.
\<close>

definition cache_get :: "CacheService \<Rightarrow> string \<Rightarrow> string option" where
  "cache_get cs key =
     (case client cs of
        None \<Rightarrow> None
      | Some c \<Rightarrow>
          if \<not> isConnected cs then None
          else (case client_get c key of Inl e \<Rightarrow> None | Inr v \<Rightarrow> v))"

definition cache_set :: "CacheService \<Rightarrow> string \<Rightarrow> string \<Rightarrow> int option \<Rightarrow> bool" where
  "cache_set cs key val ttlSeconds =
     (case client cs of
        None \<Rightarrow> False
      | Some c \<Rightarrow>
          if \<not> isConnected cs then False
          else (case (case ttlSeconds of
                        None \<Rightarrow> client_set c key val
                      | Some ttl \<Rightarrow>
                          if ttl \<noteq> 0 then client_setEx c key ttl val else client_set c key val)
                of Inl e \<Rightarrow> False | Inr _ \<Rightarrow> True))"

definition cache_del :: "CacheService \<Rightarrow> string \<Rightarrow> bool" where
  "cache_del cs key =
     (case client cs of
        None \<Rightarrow> False
      | Some c \<Rightarrow>
          if \<not> isConnected cs then False
          else (case client_del c key of Inl e \<Rightarrow> False | Inr _ \<Rightarrow> True))"

definition cache_exists :: "CacheService \<Rightarrow> string \<Rightarrow> bool" where
  "cache_exists cs key =
     (case client cs of
        None \<Rightarrow> False
      | Some c \<Rightarrow>
          if \<not> isConnected cs then False
          else (case client_exists c key of Inl e \<Rightarrow> False | Inr result \<Rightarrow> result = 1))"

section \<open>lib/persistedQueries.ts\<close>

record PersistedQuery =
  query :: string
  hash :: string
  addedAt :: nat

text \<open>
  The store: the in-memory map and the flag set in production. \<open>JSON.parse\<close> is the
  parameter \<open>parse\<close> (it may throw), the clock is the parameter \<open>now\<close>. In production
  \<open>addQuery\<close> also writes the query to Redis: that changes the server only, and the
  boolean that \<open>cache_set\<close> returns is dropped, so the write leaves no trace in the model.
\<close>

record PersistedQueryStore =
  queries :: "string \<rightharpoonup> PersistedQuery"
  useRedis :: bool

definition addQuery :: "nat \<Rightarrow> PersistedQueryStore \<Rightarrow> string \<Rightarrow> string \<Rightarrow> PersistedQueryStore" where
  "addQuery now st h q =
     st\<lparr>queries := (queries st)(h \<mapsto> \<lparr>query = q, hash = h, addedAt = now\<rparr>)\<rparr>"

definition getQuery ::
  "(string \<Rightarrow> error + PersistedQuery) \<Rightarrow> CacheService \<Rightarrow> PersistedQueryStore \<Rightarrow> string
     \<Rightarrow> string option \<times> PersistedQueryStore" where
  "getQuery parse cs st h =
     (case queries st h of
        Some memoryQuery \<Rightarrow> (Some (query memoryQuery), st)
      | None \<Rightarrow>
          if useRedis st then
            (case cache_get cs (''persisted_query:'' @ h) of
               None \<Rightarrow> (None, st)
             | Some cachedQuery \<Rightarrow>
                 if cachedQuery = [] then (None, st)
                 else (case parse cachedQuery of
                         Inl e \<Rightarrow> (None, st)
                       | Inr persistedQuery \<Rightarrow>
                           (Some (query persistedQuery),
                            st\<lparr>queries := (queries st)(h \<mapsto> persistedQuery)\<rparr>)))
          else (None, st))"

text \<open>
  A request, as \<open>handleRequest\<close> reads it: \<^verbatim>\<open>request.query\<close> and
  \<^verbatim>\<open>request.extensions?.persistedQuery?.sha256Hash\<close>, each possibly undefined. The result
  is \<^verbatim>\<open>{ query?, hash? }\<close>. A string is truthy when it is not empty.
\<close>

record APQRequest =
  req_query :: "string option"
  req_sha256Hash :: "string option"

record APQResult =
  res_query :: "string option"
  res_hash :: "string option"

definition truthy :: "string option \<Rightarrow> bool" where
  "truthy s = (case s of None \<Rightarrow> False | Some t \<Rightarrow> t \<noteq> [])"

definition handleRequest ::
  "(string \<Rightarrow> error + PersistedQuery) \<Rightarrow> nat \<Rightarrow> CacheService \<Rightarrow> PersistedQueryStore
     \<Rightarrow> APQRequest \<Rightarrow> (error + APQResult) \<times> PersistedQueryStore" where
  "handleRequest parse now cs st request =
     (if truthy (req_sha256Hash request) then
        (let h = the (req_sha256Hash request);
             (persistedQuery, st') = getQuery parse cs st h
         in if truthy persistedQuery
            then (Inr \<lparr>res_query = persistedQuery, res_hash = None\<rparr>, st')
            else (Inl (Error (''Persisted query not found: '' @ h)), st'))
      else if truthy (req_query request) \<and> truthy (req_sha256Hash request) then
        (let h = the (req_sha256Hash request)
         in (Inr \<lparr>res_query = req_query request, res_hash = Some h\<rparr>,
             addQuery now st h (the (req_query request))))
      else (Inr \<lparr>res_query = req_query request, res_hash = None\<rparr>, st))"

section \<open>JavaScript numbers and strings, as the pagination code uses them\<close>

text \<open>
  An offset is a JavaScript number, a double: NaN, an infinity, or (all that \<open>parseInt\<close>
  and the sums of the resolvers produce besides) an integer. Sums and comparisons with
  NaN give NaN and false. A sum and a comparison of integers are taken exactly, as they
  are for the offsets, limits and counts of a page, which stay below \<open>2^53\<close>; where a
  number is printed it is first rounded to a double, which is what \<^verbatim>\<open>a + b\<close> does to the
  exact sum of two doubles.
\<close>

datatype jsnum = NaN | Num int | PosInf | NegInf

fun js_add :: "jsnum \<Rightarrow> jsnum \<Rightarrow> jsnum" where
  "js_add (Num a) (Num b) = Num (a + b)"
| "js_add NaN _ = NaN"
| "js_add _ NaN = NaN"
| "js_add PosInf NegInf = NaN"
| "js_add NegInf PosInf = NaN"
| "js_add PosInf _ = PosInf"
| "js_add _ PosInf = PosInf"
| "js_add NegInf _ = NegInf"
| "js_add _ NegInf = NegInf"

fun js_less :: "jsnum \<Rightarrow> jsnum \<Rightarrow> bool" where
  "js_less (Num a) (Num b) = (a < b)"
| "js_less NaN _ = False"
| "js_less _ NaN = False"
| "js_less _ NegInf = False"
| "js_less NegInf _ = True"
| "js_less PosInf _ = False"
| "js_less _ PosInf = True"

text \<open>
  The double nearest to a natural number, ties to the even mantissa (IEEE 754 binary64:
  53 bits of mantissa): a number below \<open>2^53\<close> is a double; a larger one keeps its
  leading 53 bits, rounded. \<open>None\<close> is the overflow to infinity, which happens when the
  rounded value reaches \<open>2^1024\<close>: a mantissa \<open>q'\<close> of 53 bits with an exponent above
  971, or \<open>q' = 2^53\<close> at the exponent 971.
\<close>

fun bit_length :: "nat \<Rightarrow> nat" where
  "bit_length n = (if n = 0 then 0 else bit_length (n div 2) + 1)"

declare bit_length.simps [simp del]

definition round_double :: "nat \<Rightarrow> nat option" where
  "round_double m =
     (if m < 2 ^ 53 then Some m
      else (let e = bit_length m - 53;
                q = m div 2 ^ e;
                r = m mod 2 ^ e;
                h = 2 ^ (e - 1);
                q' = (if h < r \<or> (r = h \<and> odd q) then q + 1 else q)
            in if 971 < e \<or> (e = 971 \<and> q' = 2 ^ 53) then None else Some (q' * 2 ^ e)))"

text \<open>
  \<^verbatim>\<open>n.toString()\<close> (Number::toString of ECMAScript, radix 10) for an integer double \<open>x\<close>:
  of the decimals \<open>s * 10^e\<close> that round to \<open>x\<close>, the one with the fewest digits \<open>s\<close>,
  and of those the nearest to \<open>x\<close> (the even \<open>s\<close> on a tie). It is searched from the
  largest \<open>e\<close> down; at each \<open>e\<close> only the two multiples of \<open>10^e\<close> around \<open>x\<close> can be
  the nearest. A decimal below \<open>10^21\<close> is printed with all its digits, a larger one as
  \<open>d.ddde+n\<close>. An integer below \<open>2^53\<close> is its own shortest decimal.
\<close>

definition digit_char :: "nat \<Rightarrow> char" where
  "digit_char d = char_of (48 + d)"

fun nat_digits :: "nat \<Rightarrow> string" where
  "nat_digits n =
     (if n < 10 then [digit_char n] else nat_digits (n div 10) @ [digit_char (n mod 10)])"

declare nat_digits.simps [simp del]

fun shortest_at :: "nat \<Rightarrow> nat \<Rightarrow> nat" where
  "shortest_at x e =
     (if e = 0 then x
      else (let p = 10 ^ e;
                lo = x div p;
                a = lo * p;
                b = (lo + 1) * p;
                va = (round_double a = Some x);
                vb = (round_double b = Some x)
            in if va \<and> vb then
                 (if x - a < b - x then a
                  else if b - x < x - a then b
                  else if even lo then a else b)
               else if va then a
               else if vb then b
               else shortest_at x (e - 1)))"

declare shortest_at.simps [simp del]

definition shortest_decimal :: "nat \<Rightarrow> nat" where
  "shortest_decimal x = shortest_at x (length (nat_digits x) - 1)"

definition exponent_form :: "nat \<Rightarrow> string" where
  "exponent_form v =
     (let ds = nat_digits v;
          s = rev (dropWhile (\<lambda>c. c = CHR ''0'') (rev ds))
      in (if length s = 1 then s else hd s # CHR ''.'' # tl s)
         @ ''e+'' @ nat_digits (length ds - 1))"

definition print_double :: "nat \<Rightarrow> string" where
  "print_double x =
     (if x < 2 ^ 53 then nat_digits x
      else (let v = shortest_decimal x
            in if v < 10 ^ 21 then nat_digits v else exponent_form v))"

definition js_toString :: "jsnum \<Rightarrow> string" where
  "js_toString x =
     (case x of
        NaN \<Rightarrow> ''NaN''
      | PosInf \<Rightarrow> ''Infinity''
      | NegInf \<Rightarrow> ''-Infinity''
      | Num i \<Rightarrow>
          (case round_double (nat \<bar>i\<bar>) of
             None \<Rightarrow> if i < 0 then ''-Infinity'' else ''Infinity''
           | Some m \<Rightarrow> if i < 0 then CHR ''-'' # print_double m else print_double m))"

text \<open>
  A string is the list of the bytes of its UTF-8 text. \<open>parseInt\<close> without a radix:
  skip the leading white space (the ASCII ones, and the UTF-8 sequences of U+00A0,
  U+1680, U+2000 to U+200A, U+2028, U+2029, U+202F, U+205F, U+3000 and U+FEFF), take a
  sign, take \<open>0x\<close> or \<open>0X\<close> as the mark of radix 16, read the longest run of digits of
  the radix; no digit gives NaN, and the integer read is rounded to a double (an
  infinity when it overflows). All the digits count, as in Node; ECMAScript lets an
  implementation read the digits after the twentieth as zeros.
\<close>

definition ascii_ws :: "char list" where
  "ascii_ws = [CHR 0x09, CHR 0x0A, CHR 0x0B, CHR 0x0C, CHR 0x0D, CHR 0x20]"

definition utf8_ws3 :: "string list" where
  "utf8_ws3 =
     [[CHR 0xE1, CHR 0x9A, CHR 0x80],
      [CHR 0xE2, CHR 0x80, CHR 0x80], [CHR 0xE2, CHR 0x80, CHR 0x81],
      [CHR 0xE2, CHR 0x80, CHR 0x82], [CHR 0xE2, CHR 0x80, CHR 0x83],
      [CHR 0xE2, CHR 0x80, CHR 0x84], [CHR 0xE2, CHR 0x80, CHR 0x85],
      [CHR 0xE2, CHR 0x80, CHR 0x86], [CHR 0xE2, CHR 0x80, CHR 0x87],
      [CHR 0xE2, CHR 0x80, CHR 0x88], [CHR 0xE2, CHR 0x80, CHR 0x89],
      [CHR 0xE2, CHR 0x80, CHR 0x8A],
      [CHR 0xE2, CHR 0x80, CHR 0xA8], [CHR 0xE2, CHR 0x80, CHR 0xA9],
      [CHR 0xE2, CHR 0x80, CHR 0xAF], [CHR 0xE2, CHR 0x81, CHR 0x9F],
      [CHR 0xE3, CHR 0x80, CHR 0x80], [CHR 0xEF, CHR 0xBB, CHR 0xBF]]"

definition ws_len :: "string \<Rightarrow> nat" where
  "ws_len s =
     (case s of
        [] \<Rightarrow> 0
      | c # cs \<Rightarrow>
          if c \<in> set ascii_ws then 1
          else if take 2 s = [CHR 0xC2, CHR 0xA0] then 2
          else if take 3 s \<in> set utf8_ws3 then 3
          else 0)"

function skip_ws :: "string \<Rightarrow> string" where
  "skip_ws s = (if ws_len s = 0 then s else skip_ws (drop (ws_len s) s))"
  by pat_completeness auto
termination
  by (relation "measure length") (auto simp: ws_len_def split: list.splits if_splits)

declare skip_ws.simps [simp del]

definition digit_val :: "nat \<Rightarrow> char \<Rightarrow> nat option" where
  "digit_val R c =
     (let n = (of_char c :: nat);
          v = (if 48 \<le> n \<and> n \<le> 57 then Some (n - 48)
               else if 97 \<le> n \<and> n \<le> 122 then Some (n - 87)
               else if 65 \<le> n \<and> n \<le> 90 then Some (n - 55)
               else None)
      in case v of None \<Rightarrow> None | Some d \<Rightarrow> if d < R then Some d else None)"

fun parse_digits :: "nat \<Rightarrow> string \<Rightarrow> nat list" where
  "parse_digits R [] = []"
| "parse_digits R (c # cs) =
     (case digit_val R c of None \<Rightarrow> [] | Some d \<Rightarrow> d # parse_digits R cs)"

definition parseInt :: "string \<Rightarrow> jsnum" where
  "parseInt input =
     (let s = skip_ws input;
          neg = (take 1 s = ''-'');
          s1 = (if take 1 s = ''-'' \<or> take 1 s = ''+'' then drop 1 s else s);
          hex = (take 2 s1 = ''0x'' \<or> take 2 s1 = ''0X'');
          R = (if hex then 16 else 10);
          s2 = (if hex then drop 2 s1 else s1);
          ds = parse_digits R s2
      in if ds = [] then NaN
         else (case round_double (foldl (\<lambda>a d. a * R + d) 0 ds) of
                 None \<Rightarrow> if neg then NegInf else PosInf
               | Some m \<Rightarrow> Num (if neg then - int m else int m)))"

subsection \<open>Base64, as \<open>Buffer\<close> does it\<close>

text \<open>
  \<^verbatim>\<open>Buffer.from(s).toString('base64')\<close> encodes the bytes of \<open>s\<close> three at a time with
  padding. \<^verbatim>\<open>Buffer.from(s, 'base64')\<close> never throws: a character outside the alphabet is
  skipped (the URL-safe \<open>-\<close> and \<open>_\<close> count as \<open>+\<close> and \<open>/\<close>), decoding stops at the first
  \<open>=\<close>, and the sextets left over at the end give the bytes they complete.
  \<^verbatim>\<open>toString('utf-8')\<close> then reads the bytes as text; an ill-formed sequence, which Node
  replaces by U+FFFD, stays as it is here: neither form is white space, a sign or a
  digit to \<open>parseInt\<close>.
\<close>

definition b64_alphabet :: string where
  "b64_alphabet = ''ABCDEFGHIJKLMNOPQRSTUVWXYZabcdefghijklmnopqrstuvwxyz0123456789+/''"

definition b64_char :: "nat \<Rightarrow> char" where
  "b64_char k = b64_alphabet ! k"

fun index_of :: "char \<Rightarrow> string \<Rightarrow> nat option" where
  "index_of c [] = None"
| "index_of c (x # xs) = (if x = c then Some 0 else map_option Suc (index_of c xs))"

definition b64_index :: "char \<Rightarrow> nat option" where
  "b64_index c =
     (if c = CHR ''-'' then Some 62
      else if c = CHR ''_'' then Some 63
      else index_of c b64_alphabet)"

fun b64_encode :: "string \<Rightarrow> string" where
  "b64_encode [] = []"
| "b64_encode [a] =
     (let n = (of_char a :: nat) * 16
      in [b64_char (n div 64), b64_char (n mod 64), CHR ''='', CHR ''=''])"
| "b64_encode [a, b] =
     (let n = ((of_char a :: nat) * 256 + of_char b) * 4
      in [b64_char (n div 4096), b64_char (n div 64 mod 64), b64_char (n mod 64), CHR ''=''])"
| "b64_encode (a # b # c # rest) =
     (let n = ((of_char a :: nat) * 256 + of_char b) * 256 + of_char c
      in [b64_char (n div 262144), b64_char (n div 4096 mod 64),
          b64_char (n div 64 mod 64), b64_char (n mod 64)] @ b64_encode rest)"

fun b64_sextets :: "string \<Rightarrow> nat list" where
  "b64_sextets [] = []"
| "b64_sextets (c # cs) =
     (if c = CHR ''='' then []
      else (case b64_index c of None \<Rightarrow> b64_sextets cs | Some k \<Rightarrow> k # b64_sextets cs))"

fun b64_bytes :: "nat list \<Rightarrow> string" where
  "b64_bytes (s1 # s2 # s3 # s4 # rest) =
     (let n = ((s1 * 64 + s2) * 64 + s3) * 64 + s4
      in [char_of (n div 65536), char_of (n div 256 mod 256), char_of (n mod 256)]
         @ b64_bytes rest)"
| "b64_bytes [s1, s2, s3] =
     (let n = (s1 * 64 + s2) * 64 + s3
      in [char_of (n div 1024), char_of (n div 4 mod 256)])"
| "b64_bytes [s1, s2] = [char_of ((s1 * 64 + s2) div 16)]"
| "b64_bytes _ = []"

definition b64_decode :: "string \<Rightarrow> string" where
  "b64_decode s = b64_bytes (b64_sextets s)"

section \<open>The cursor helpers of the resolvers\<close>

text \<open>
  \<open>encodeCursor\<close> and \<open>decodeCursor\<close> are defined twice in the source, word for word, in
  product.resolvers.ts and in order.resolvers.ts.
\<close>

definition encodeCursor :: "string \<Rightarrow> string" where
  "encodeCursor i = b64_encode i"

definition decodeCursor :: "string \<Rightarrow> string" where
  "decodeCursor cursor = b64_decode cursor"

section \<open>The paginated queries (product.resolvers.ts, order.resolvers.ts)\<close>

text \<open>
  The inputs, as GraphQL hands them to the resolvers: \<open>first\<close> and \<open>last\<close> are GraphQL
  \<open>Int\<close>s, the prices \<open>Float\<close>s (rationals here; only their sign is read). Every argument
  and every field of an input object is nullable in GraphQL: it is left out
  (\<open>Undefined\<close>), given as an explicit null (\<open>Null\<close>) or given a value.
\<close>

datatype 'a nullable = Undefined | Null | Val 'a

record CursorInput =
  pg_first :: "int nullable"
  pg_after :: "string nullable"
  pg_last :: "int nullable"
  pg_before :: "string nullable"

record ProductFilter =
  category :: "string nullable"
  brand :: "string nullable"
  minPrice :: "rat nullable"
  maxPrice :: "rat nullable"
  inStock :: "bool nullable"
  isActive :: "bool nullable"

text \<open>
  The zod schemas. \<^verbatim>\<open>.optional()\<close> accepts a field that is left out and nothing else
  that is not of the type: an explicit null raises the issue "Expected ..., received
  null". \<^verbatim>\<open>z.number().positive().max(100)\<close> raises one issue for a number that is not
  positive and one for a number above 100. The messages are the library's. \<open>parse\<close> throws
  a \<open>ZodError\<close> with the issues of all the fields, in the order of the fields, and returns
  the object when there is none; what is parsed must be an object.
\<close>

definition zod_string :: "string nullable \<Rightarrow> string list" where
  "zod_string v =
     (case v of
        Undefined \<Rightarrow> []
      | Null \<Rightarrow> [''Expected string, received null'']
      | Val s \<Rightarrow> [])"

definition zod_boolean :: "bool nullable \<Rightarrow> string list" where
  "zod_boolean v =
     (case v of
        Undefined \<Rightarrow> []
      | Null \<Rightarrow> [''Expected boolean, received null'']
      | Val b \<Rightarrow> [])"

definition zod_positive_max100 :: "int nullable \<Rightarrow> string list" where
  "zod_positive_max100 v =
     (case v of
        Undefined \<Rightarrow> []
      | Null \<Rightarrow> [''Expected number, received null'']
      | Val n \<Rightarrow>
          (if n \<le> 0 then [''Number must be greater than 0''] else [])
          @ (if n > 100 then [''Number must be less than or equal to 100''] else []))"

definition zod_positive :: "rat nullable \<Rightarrow> string list" where
  "zod_positive v =
     (case v of
        Undefined \<Rightarrow> []
      | Null \<Rightarrow> [''Expected number, received null'']
      | Val x \<Rightarrow> if x \<le> 0 then [''Number must be greater than 0''] else [])"

definition CursorInputSchema_issues :: "CursorInput \<Rightarrow> string list" where
  "CursorInputSchema_issues pagination =
     zod_positive_max100 (pg_first pagination) @ zod_string (pg_after pagination)
     @ zod_positive_max100 (pg_last pagination) @ zod_string (pg_before pagination)"

definition CursorInputSchema_parse :: "CursorInput nullable \<Rightarrow> error + CursorInput" where
  "CursorInputSchema_parse input =
     (case input of
        Undefined \<Rightarrow> Inl (ZodError [''Required''])
      | Null \<Rightarrow> Inl (ZodError [''Expected object, received null''])
      | Val pagination \<Rightarrow>
          if CursorInputSchema_issues pagination = [] then Inr pagination
          else Inl (ZodError (CursorInputSchema_issues pagination)))"

definition ProductFilterSchema_issues :: "ProductFilter \<Rightarrow> string list" where
  "ProductFilterSchema_issues filter_in =
     zod_string (category filter_in) @ zod_string (brand filter_in)
     @ zod_positive (minPrice filter_in) @ zod_positive (maxPrice filter_in)
     @ zod_boolean (inStock filter_in) @ zod_boolean (isActive filter_in)"

definition ProductFilterSchema_parse :: "ProductFilter nullable \<Rightarrow> error + ProductFilter" where
  "ProductFilterSchema_parse input =
     (case input of
        Undefined \<Rightarrow> Inl (ZodError [''Required''])
      | Null \<Rightarrow> Inl (ZodError [''Expected object, received null''])
      | Val filter_in \<Rightarrow>
          if ProductFilterSchema_issues filter_in = [] then Inr filter_in
          else Inl (ZodError (ProductFilterSchema_issues filter_in)))"

text \<open>
  The catch block of each resolver: a \<open>ZodError\<close> is thrown again as
  \<^verbatim>\<open>new Error(`Validation error: ${messages.join(', ')}`)\<close>, any other error as it is.
\<close>

fun join_comma :: "string list \<Rightarrow> string" where
  "join_comma [] = []"
| "join_comma [m] = m"
| "join_comma (m # ms) = m @ '', '' @ join_comma ms"

definition rethrow :: "error \<Rightarrow> error" where
  "rethrow e =
     (case e of
        ZodError msgs \<Rightarrow> Error (''Validation error: '' @ join_comma msgs)
      | Error msg \<Rightarrow> Error msg)"

text \<open>
  The pagination parameters, the same two statements in \<open>products\<close>, \<open>searchProducts\<close>
  and \<open>myOrders\<close>:
  \<^verbatim>\<open>limit = Math.min(first || last || 20, 100)\<close> and
  \<^verbatim>\<open>offset = after ? parseInt(decodeCursor(after)) : 0\<close>.
  A number is truthy unless it is zero, a string unless it is empty; undefined and null
  are falsy.
\<close>

definition truthy_string :: "string nullable \<Rightarrow> bool" where
  "truthy_string v = (case v of Val t \<Rightarrow> t \<noteq> [] | _ \<Rightarrow> False)"

definition truthy_rat :: "rat nullable \<Rightarrow> bool" where
  "truthy_rat v = (case v of Val x \<Rightarrow> x \<noteq> 0 | _ \<Rightarrow> False)"

definition page_limit :: "CursorInput \<Rightarrow> int" where
  "page_limit validatedPagination =
     min (case pg_first validatedPagination of
            Val f \<Rightarrow> if f \<noteq> 0 then f
                     else (case pg_last validatedPagination of
                             Val l \<Rightarrow> if l \<noteq> 0 then l else 20
                           | _ \<Rightarrow> 20)
          | _ \<Rightarrow> (case pg_last validatedPagination of
                     Val l \<Rightarrow> if l \<noteq> 0 then l else 20
                   | _ \<Rightarrow> 20))
         100"

definition page_offset :: "CursorInput \<Rightarrow> jsnum" where
  "page_offset validatedPagination =
     (case pg_after validatedPagination of
        Val a \<Rightarrow> if a \<noteq> [] then parseInt (decodeCursor a) else Num 0
      | _ \<Rightarrow> Num 0)"

text \<open>
  The result: the edges, each row with the cursor of its position \<open>offset + index\<close>,
  the page info and the total count of the store.
\<close>

record 'n Edge =
  node :: 'n
  cursor :: string

record PageInfo =
  hasNextPage :: bool
  hasPreviousPage :: bool
  startCursor :: "string option"
  endCursor :: "string option"

record 'n Connection =
  edges :: "'n Edge list"
  pageInfo :: PageInfo
  totalCount :: int

definition connection ::
  "('r \<Rightarrow> 'n) \<Rightarrow> jsnum \<Rightarrow> int \<Rightarrow> 'r list \<Rightarrow> int \<Rightarrow> 'n Connection" where
  "connection transform offset limit rows totalCnt =
     (let es = map (\<lambda>(index, row).
                      \<lparr>node = transform row,
                       cursor = encodeCursor (js_toString (js_add offset (Num (int index))))\<rparr>)
                 (enumerate 0 rows)
      in \<lparr>edges = es,
          pageInfo =
            \<lparr>hasNextPage = js_less (js_add offset (Num limit)) (Num totalCnt),
             hasPreviousPage = js_less (Num 0) offset,
             startCursor = (if length es > 0 then Some (cursor (hd es)) else None),
             endCursor = (if length es > 0 then Some (cursor (last es)) else None)\<rparr>,
          totalCount = totalCnt\<rparr>)"

text \<open>The GraphQL objects the rows are transformed to.\<close>

record ProductNode =
  pn_id :: string
  pn_name :: string
  pn_description :: "string option"
  pn_price :: rat
  pn_category :: string
  pn_brand :: "string option"
  pn_sku :: "string option"
  pn_stockQuantity :: int
  pn_isActive :: bool
  pn_createdAt :: string
  pn_updatedAt :: string

definition transformProduct :: "Product \<Rightarrow> ProductNode" where
  "transformProduct product =
     \<lparr>pn_id = p_id product, pn_name = p_name product,
      pn_description = p_description product, pn_price = p_price product,
      pn_category = p_category product, pn_brand = p_brand product, pn_sku = p_sku product,
      pn_stockQuantity = p_stock_quantity product,
      pn_isActive = (p_is_active product \<noteq> 0),
      pn_createdAt = p_created_at product, pn_updatedAt = p_updated_at product\<rparr>"

record OrderNode =
  on_id :: string
  on_status :: string
  on_totalAmount :: rat
  on_shippingAddress :: string
  on_billingAddress :: string
  on_paymentMethod :: string
  on_paymentStatus :: string
  on_trackingNumber :: "string option"
  on_notes :: "string option"
  on_createdAt :: string
  on_updatedAt :: string

text \<open>\<open>String.prototype.toUpperCase\<close> is the parameter \<open>toUpperCase\<close>.\<close>

definition transformOrder :: "(string \<Rightarrow> string) \<Rightarrow> Order \<Rightarrow> OrderNode" where
  "transformOrder toUpperCase order =
     \<lparr>on_id = o_id order, on_status = toUpperCase (o_status order),
      on_totalAmount = o_total_amount order,
      on_shippingAddress = o_shipping_address order,
      on_billingAddress = o_billing_address order,
      on_paymentMethod = o_payment_method order,
      on_paymentStatus = toUpperCase (o_payment_status order),
      on_trackingNumber = o_tracking_number order, on_notes = o_notes order,
      on_createdAt = o_created_at order, on_updatedAt = o_updated_at order\<rparr>"

text \<open>
  The filters handed to the DAO: a key is copied when its value is truthy (category,
  brand, the prices) or not undefined (the two flags), and is left out otherwise.
\<close>

definition dao_filters :: "ProductFilter \<Rightarrow> ProductFilter" where
  "dao_filters validatedFilter =
     \<lparr>category = (if truthy_string (category validatedFilter)
                  then category validatedFilter else Undefined),
      brand = (if truthy_string (brand validatedFilter) then brand validatedFilter else Undefined),
      minPrice = (if truthy_rat (minPrice validatedFilter)
                  then minPrice validatedFilter else Undefined),
      maxPrice = (if truthy_rat (maxPrice validatedFilter)
                  then maxPrice validatedFilter else Undefined),
      inStock = inStock validatedFilter,
      isActive = isActive validatedFilter\<rparr>"

definition empty_filter :: ProductFilter where
  "empty_filter = \<lparr>category = Undefined, brand = Undefined, minPrice = Undefined,
                    maxPrice = Undefined, inStock = Undefined, isActive = Undefined\<rparr>"

definition empty_pagination :: CursorInput where
  "empty_pagination = \<lparr>pg_first = Undefined, pg_after = Undefined, pg_last = Undefined,
                        pg_before = Undefined\<rparr>"

text \<open>
  The resolvers. The DAO call (\<open>productDAO.searchProducts\<close>, \<open>orderDAO.findByUser\<close>) is a
  parameter: given the search term or the user id, the filters, the limit and the offset,
  it returns the rows and the total count, or throws. The default of the destructuring
  (\<^verbatim>\<open>{ filter = {}, pagination = {} }\<close>) replaces an argument that is left out, not one
  that is null.
\<close>

definition or_default :: "'a \<Rightarrow> 'a nullable \<Rightarrow> 'a nullable" where
  "or_default d arg = (case arg of Undefined \<Rightarrow> Val d | _ \<Rightarrow> arg)"

type_synonym searchProducts_dao =
  "string \<Rightarrow> ProductFilter \<Rightarrow> int \<Rightarrow> jsnum \<Rightarrow> error + Product list \<times> int"

type_synonym findByUser_dao =
  "string \<Rightarrow> int \<Rightarrow> jsnum \<Rightarrow> error + Order list \<times> int"


text \<open>\<open>products\<close> is \<open>searchProducts\<close> with the empty search term, statement for statement.\<close>

definition products ::
  "searchProducts_dao \<Rightarrow> ProductFilter nullable \<Rightarrow> CursorInput nullable
     \<Rightarrow> error + ProductNode Connection" where
  "products dao filter_arg pagination_arg =
     (let filter_in = or_default empty_filter filter_arg;
          pagination = or_default empty_pagination pagination_arg
      in case ProductFilterSchema_parse filter_in of
           Inl e \<Rightarrow> Inl (rethrow e)
         | Inr validatedFilter \<Rightarrow>
             (case CursorInputSchema_parse pagination of
                Inl e \<Rightarrow> Inl (rethrow e)
              | Inr validatedPagination \<Rightarrow>
                  (let limit = page_limit validatedPagination;
                       offset = page_offset validatedPagination
                   in case dao [] (dao_filters validatedFilter) limit offset of
                        Inl e \<Rightarrow> Inl (rethrow e)
                      | Inr (rows, totalCnt) \<Rightarrow>
                          Inr (connection transformProduct offset limit rows totalCnt))))"

definition myOrders ::
  "(string \<Rightarrow> string) \<Rightarrow> findByUser_dao \<Rightarrow> GraphQLContext \<Rightarrow> CursorInput nullable
     \<Rightarrow> error + OrderNode Connection" where
  "myOrders toUpperCase dao context pagination_arg =
     (let pagination = or_default empty_pagination pagination_arg
      in case requireAuth context of
           Inl e \<Rightarrow> Inl (rethrow e)
         | Inr u \<Rightarrow>
             (case CursorInputSchema_parse pagination of
                Inl e \<Rightarrow> Inl (rethrow e)
              | Inr validatedPagination \<Rightarrow>
                  (let limit = page_limit validatedPagination;
                       offset = page_offset validatedPagination
                   in case dao (userId u) limit offset of
                        Inl e \<Rightarrow> Inl (rethrow e)
                      | Inr (rows, totalCnt) \<Rightarrow>
                          Inr (connection (transformOrder toUpperCase) offset limit rows totalCnt))))"

section \<open>Values used in the examples\<close>

definition alice :: JWTPayload where
  "alice = \<lparr>userId = ''u1'', email = ''alice@example.com'', isAdmin = False,
            iat = Some 1000, exp = Some 1900\<rparr>"

definition root_user :: JWTPayload where
  "root_user = \<lparr>userId = ''u1'', email = ''root@example.com'', isAdmin = True,
                iat = Some 1000, exp = Some 1900\<rparr>"

text \<open>A verifier that accepts one token and throws on every other.\<close>

definition jwt_one_token :: "string \<Rightarrow> error + JWTPayload" where
  "jwt_one_token token =
     (if token = ''good'' then Inr alice else Inl (Error ''invalid signature''))"

definition cache_absent :: CacheService where
  "cache_absent = \<lparr>client = None, isConnected = False\<rparr>"

definition failing_client :: RedisClient where
  "failing_client =
     \<lparr>client_get = (\<lambda>k. Inl (Error ''ECONNRESET'')),
      client_set = (\<lambda>k v. Inl (Error ''ECONNRESET'')),
      client_setEx = (\<lambda>k t v. Inl (Error ''ECONNRESET'')),
      client_del = (\<lambda>k. Inl (Error ''ECONNRESET'')),
      client_exists = (\<lambda>k. Inl (Error ''ECONNRESET''))\<rparr>"

definition cache_failing :: CacheService where
  "cache_failing = \<lparr>client = Some failing_client, isConnected = True\<rparr>"


definition after_abc :: CursorInput where
  "after_abc = \<lparr>pg_first = Undefined, pg_after = Val ''YWJj'', pg_last = Undefined,
                 pg_before = Undefined\<rparr>"




definition after_abc_before_null :: CursorInput where
  "after_abc_before_null = \<lparr>pg_first = Undefined, pg_after = Val ''YWJj'', pg_last = Undefined,
                             pg_before = Null\<rparr>"

definition dao_no_products :: searchProducts_dao where
  "dao_no_products q f limit offset = Inr ([], 0)"

definition dao_no_orders :: findByUser_dao where
  "dao_no_orders uid limit offset = Inr ([], 0)"

definition demo_user :: "string \<Rightarrow> User" where
  "demo_user i =
     \<lparr>u_id = i, u_email = i @ ''@example.com'', u_password_hash = ''x'',
      u_first_name = ''A'', u_last_name = ''B'', u_phone = None, u_address = None,
      u_city = None, u_state = None, u_zip_code = None, u_country = None,
      u_is_admin = 0, u_is_active = 1, u_created_at = ''2024-01-01'',
      u_updated_at = ''2024-01-01''\<rparr>"

definition demo_product :: "string \<Rightarrow> string \<Rightarrow> Product" where
  "demo_product i seller =
     \<lparr>p_id = i, p_name = ''Lamp'', p_description = None, p_price = 10,
      p_category = ''Home'', p_brand = None, p_sku = None, p_stock_quantity = 3,
      p_is_active = 1, p_seller_id = seller, p_created_at = ''2024-01-01'',
      p_updated_at = ''2024-01-01''\<rparr>"

definition demo_order :: "string \<Rightarrow> string \<Rightarrow> Order" where
  "demo_order i uid =
     \<lparr>o_id = i, o_user_id = uid, o_status = ''pending'', o_total_amount = 10,
      o_shipping_address = ''S'', o_billing_address = ''B'', o_payment_method = ''card'',
      o_payment_status = ''paid'', o_tracking_number = None, o_notes = None,
      o_created_at = ''2024-01-01'', o_updated_at = ''2024-01-01''\<rparr>"

definition demo_item :: "string \<Rightarrow> string \<Rightarrow> OrderItem" where
  "demo_item i oid =
     \<lparr>oi_id = i, oi_order_id = oid, oi_product_id = ''p1'', oi_quantity = 1,
      oi_unit_price = 10, oi_total_price = 10, oi_created_at = ''2024-01-01''\<rparr>"

definition demo_review :: "string \<Rightarrow> string \<Rightarrow> Review" where
  "demo_review i pid =
     \<lparr>r_id = i, r_product_id = pid, r_user_id = ''u1'', r_rating = 5, r_title = None,
      r_comment = None, r_is_verified_purchase = 0, r_created_at = ''2024-01-01'',
      r_updated_at = ''2024-01-01''\<rparr>"

definition demo_cart :: "string \<Rightarrow> string \<Rightarrow> CartItem" where
  "demo_cart i uid =
     \<lparr>ci_id = i, ci_user_id = uid, ci_product_id = ''p1'', ci_quantity = 2,
      ci_created_at = ''2024-01-01'', ci_updated_at = ''2024-01-01''\<rparr>"

definition demo_keys :: "string list" where
  "demo_keys = [''k2'', ''k9'', ''k1'']"

definition demo_users :: "User list" where
  "demo_users = [demo_user ''k1'', demo_user ''k2'']"

definition demo_products :: "Product list" where
  "demo_products = [demo_product ''k1'' ''s1'', demo_product ''k2'' ''s1'']"

definition demo_sold :: "Product list" where
  "demo_sold = [demo_product ''p1'' ''k2'', demo_product ''p2'' ''k1'', demo_product ''p3'' ''k2'']"

definition demo_orders :: "Order list" where
  "demo_orders = [demo_order ''o1'' ''k1'', demo_order ''o2'' ''k2'']"

definition demo_items :: "OrderItem list" where
  "demo_items = [demo_item ''i1'' ''k2'', demo_item ''i2'' ''k2'']"

definition demo_reviews :: "Review list" where
  "demo_reviews = [demo_review ''r1'' ''k1'']"

definition demo_carts :: "CartItem list" where
  "demo_carts = [demo_cart ''c1'' ''k2'']"

section \<open>The ownership guard\<close>

text \<open>
  C9. \<open>requireOwnership\<close> throws "Authentication required" when the context has no
  user, throws "Access denied: insufficient permissions" when the user's id differs from
  the owner's and the user is not an admin, and returns the user in every other case:
  the owner, or any admin.
\<close>

theorem requireOwnership_spec:
  "(user ctx = None \<longrightarrow> requireOwnership ctx owner = Inl (Error ''Authentication required''))
   \<and> (\<forall>u. user ctx = Some u \<and> userId u \<noteq> owner \<and> \<not> isAdmin u \<longrightarrow>
          requireOwnership ctx owner = Inl (Error ''Access denied: insufficient permissions''))
   \<and> (\<forall>u. user ctx = Some u \<and> (userId u = owner \<or> isAdmin u) \<longrightarrow>
          requireOwnership ctx owner = Inr u)"
  by (auto simp: requireOwnership_def requireAuth_def)

theorem requireOwnership_spec_witness:
  "requireOwnership \<lparr>user = None\<rparr> ''u2'' = Inl (Error ''Authentication required'')
   \<and> requireOwnership \<lparr>user = Some alice\<rparr> ''u2'' = Inl (Error ''Access denied: insufficient permissions'')
   \<and> requireOwnership \<lparr>user = Some alice\<rparr> ''u1'' = Inr alice
   \<and> requireOwnership \<lparr>user = Some root_user\<rparr> ''u2'' = Inr root_user"
  using requireOwnership_spec [of "\<lparr>user = None\<rparr>" "''u2''"]
    requireOwnership_spec [of "\<lparr>user = Some alice\<rparr>" "''u2''"]
    requireOwnership_spec [of "\<lparr>user = Some alice\<rparr>" "''u1''"]
    requireOwnership_spec [of "\<lparr>user = Some root_user\<rparr>" "''u2''"]
  by (simp add: alice_def root_user_def)

section \<open>Authentication fails closed\<close>

lemma split_space_not_Nil: "split_space s \<noteq> []"
  by (induction s) (auto split: list.splits)

lemma split_space_single: "split_space s = [p] \<Longrightarrow> p = s"
proof (induction s arbitrary: p)
  case Nil
  then show ?case by simp
next
  case (Cons c cs)
  then show ?case
    by (auto split: if_splits list.splits simp: split_space_not_Nil)
qed

lemma split_space_two: "split_space s = [p0, p1] \<Longrightarrow> s = p0 @ CHR '' '' # p1"
proof (induction s arbitrary: p0)
  case Nil
  then show ?case by simp
next
  case (Cons c cs)
  then show ?case
    by (auto split: if_splits list.splits dest: split_space_single)
qed

lemma extract_Some:
  "extractTokenFromHeader (Some h) = Some t \<Longrightarrow> h = ''Bearer '' @ t \<and> t \<noteq> []"
  by (auto simp: extractTokenFromHeader_def split: if_splits list.splits dest: split_space_two)

lemma extract_Bearer:
  "extractTokenFromHeader (Some (''Bearer '' @ t)) = None \<or>
   extractTokenFromHeader (Some (''Bearer '' @ t)) = Some t"
  using extract_Some [of "''Bearer '' @ t"] by (cases "extractTokenFromHeader (Some (''Bearer '' @ t))") auto

text \<open>
  C7. Resolving the credential of a request never throws and gives a whole payload or
  null: null without a header, null for a header that does not begin with \<open>Bearer\<close> and a
  space, null for a bearer token that the verification rejects (whatever it throws:
  malformed, expired, bad signature); and when a user is set, the header was
  \<open>Bearer\<close>, a space and a token that verified to exactly that payload.
\<close>

theorem createContext_fails_closed:
  "user (createContext jv None) = None
   \<and> (take 7 h \<noteq> ''Bearer '' \<longrightarrow> user (createContext jv (Some h)) = None)
   \<and> ((\<exists>e. jv t = Inl e) \<longrightarrow> user (createContext jv (Some (''Bearer '' @ t))) = None)
   \<and> (\<forall>p. user (createContext jv hdr) = Some p \<longrightarrow>
          (\<exists>tok. hdr = Some (''Bearer '' @ tok) \<and> tok \<noteq> [] \<and> jv tok = Inr p))"
proof (intro conjI allI impI)
  show "user (createContext jv None) = None"
    by (simp add: createContext_def)
next
  assume "take 7 h \<noteq> ''Bearer ''"
  then have "extractTokenFromHeader (Some h) = None"
    using extract_Some [of h] by (cases "extractTokenFromHeader (Some h)") auto
  then show "user (createContext jv (Some h)) = None"
    by (simp add: createContext_def)
next
  assume "\<exists>e. jv t = Inl e"
  then show "user (createContext jv (Some (''Bearer '' @ t))) = None"
    using extract_Bearer [of t]
    by (auto simp: createContext_def verifyAccessToken_def)
next
  fix p
  assume a: "user (createContext jv hdr) = Some p"
  then obtain h where h: "hdr = Some h"
    by (cases hdr) (simp_all add: createContext_def)
  from a h obtain tok where tok: "extractTokenFromHeader (Some h) = Some tok"
    and v: "verifyAccessToken jv tok = Some p"
    by (auto simp: createContext_def split: if_splits option.splits)
  from v have "jv tok = Inr p"
    by (auto simp: verifyAccessToken_def split: sum.splits)
  with extract_Some [OF tok] h
  show "\<exists>tok. hdr = Some (''Bearer '' @ tok) \<and> tok \<noteq> [] \<and> jv tok = Inr p"
    by blast
qed

theorem createContext_fails_closed_witness:
  "take 7 ''Basic abc'' \<noteq> ''Bearer ''
   \<and> user (createContext jwt_one_token (Some ''Basic abc'')) = None
   \<and> (\<exists>e. jwt_one_token ''expired'' = Inl e)
   \<and> user (createContext jwt_one_token (Some ''Bearer expired'')) = None
   \<and> user (createContext jwt_one_token (Some ''Bearer good'')) = Some alice
   \<and> (\<exists>tok. Some ''Bearer good'' = Some (''Bearer '' @ tok) \<and> tok \<noteq> [] \<and> jwt_one_token tok = Inr alice)"
  using createContext_fails_closed [of jwt_one_token "''Basic abc''" "''expired''" "Some ''Bearer good''"]
  by (simp add: jwt_one_token_def createContext_def extractTokenFromHeader_def verifyAccessToken_def)

section \<open>The cache degrades to misses\<close>

lemma cache_set_raises:
  assumes "client cs = Some c" and "isl (client_set c key val)"
    and "\<forall>t. isl (client_setEx c key t val)"
  shows "cache_set cs key val ttl = False"
proof (cases ttl)
  case None
  with assms(1,2) show ?thesis
    by (auto simp: cache_set_def isl_def)
next
  case (Some t)
  from assms(3) have "isl (client_setEx c key t val)" by blast
  with Some assms(1,2) show ?thesis
    by (auto simp: cache_set_def isl_def)
qed

text \<open>
  C8. With no client or with the connection flag off, \<open>get\<close> returns null and \<open>set\<close>,
  \<open>del\<close> and \<open>exists\<close> return false; the same when the client call throws. No operation
  throws: each is a total function into its result type.
\<close>

theorem cache_degrades:
  "(client cs = None \<or> \<not> isConnected cs \<longrightarrow>
      cache_get cs key = None \<and> cache_set cs key val ttl = False
      \<and> cache_del cs key = False \<and> cache_exists cs key = False)
   \<and> (\<forall>c. client cs = Some c \<longrightarrow>
        (isl (client_get c key) \<longrightarrow> cache_get cs key = None)
        \<and> (isl (client_set c key val) \<and> (\<forall>t. isl (client_setEx c key t val)) \<longrightarrow>
             cache_set cs key val ttl = False)
        \<and> (isl (client_del c key) \<longrightarrow> cache_del cs key = False)
        \<and> (isl (client_exists c key) \<longrightarrow> cache_exists cs key = False))"
proof -
  have down: "cache_get cs key = None \<and> cache_set cs key val ttl = False
      \<and> cache_del cs key = False \<and> cache_exists cs key = False"
    if "client cs = None \<or> \<not> isConnected cs"
    using that
    by (auto simp: cache_get_def cache_set_def cache_del_def cache_exists_def
             split: option.splits)
  have g: "cache_get cs key = None" if "client cs = Some c" "isl (client_get c key)" for c
    using that by (auto simp: cache_get_def isl_def)
  have s: "cache_set cs key val ttl = False"
    if "client cs = Some c" "isl (client_set c key val)" "\<forall>t. isl (client_setEx c key t val)"
    for c
    using that by (rule cache_set_raises)
  have d: "cache_del cs key = False" if "client cs = Some c" "isl (client_del c key)" for c
    using that by (auto simp: cache_del_def isl_def)
  have e: "cache_exists cs key = False"
    if "client cs = Some c" "isl (client_exists c key)" for c
    using that by (auto simp: cache_exists_def isl_def)
  from down g s d e show ?thesis by blast
qed

theorem cache_degrades_witness:
  "(client cache_absent = None \<or> \<not> isConnected cache_absent)
   \<and> cache_get cache_absent ''product:1'' = None
   \<and> cache_set cache_absent ''product:1'' ''{}'' (Some 60) = False
   \<and> cache_del cache_absent ''product:1'' = False
   \<and> cache_exists cache_absent ''product:1'' = False
   \<and> client cache_failing = Some failing_client
   \<and> isl (client_get failing_client ''product:1'')
   \<and> isl (client_set failing_client ''product:1'' ''{}'')
   \<and> (\<forall>t. isl (client_setEx failing_client ''product:1'' t ''{}''))
   \<and> isl (client_del failing_client ''product:1'')
   \<and> isl (client_exists failing_client ''product:1'')
   \<and> cache_get cache_failing ''product:1'' = None
   \<and> cache_set cache_failing ''product:1'' ''{}'' (Some 60) = False
   \<and> cache_del cache_failing ''product:1'' = False
   \<and> cache_exists cache_failing ''product:1'' = False"
  using cache_degrades [of cache_absent "''product:1''" "''{}''" "Some 60"]
    cache_degrades [of cache_failing "''product:1''" "''{}''" "Some 60"]
  by (simp add: cache_absent_def cache_failing_def failing_client_def)

section \<open>Persisted queries: a hash together with a body\<close>

text \<open>
  C1. A request with a hash that is not registered and a query body is answered with
  "Persisted query not found": the first branch of \<open>handleRequest\<close> takes every request
  that has a hash, so the branch that registers the body is never reached, and the body
  of a request with a hash has no effect on the result or on the store.
\<close>

theorem handleRequest_hash_shadows_body:
  "handleRequest parse now cs \<lparr>queries = Map.empty, useRedis = False\<rparr>
     \<lparr>req_query = Some ''{ products { totalCount } }'', req_sha256Hash = Some ''abc123''\<rparr>
   = (Inl (Error ''Persisted query not found: abc123''), \<lparr>queries = Map.empty, useRedis = False\<rparr>)
   \<and> handleRequest parse now cs st \<lparr>req_query = q, req_sha256Hash = Some (c # h)\<rparr>
     = handleRequest parse now cs st \<lparr>req_query = None, req_sha256Hash = Some (c # h)\<rparr>"
  by (simp add: handleRequest_def truthy_def getQuery_def)

section \<open>Cursors: encoding and decoding\<close>

lemma distinct_b64: "distinct b64_alphabet"
  by (simp add: b64_alphabet_def)

lemma length_b64: "length b64_alphabet = 64"
  by (simp add: b64_alphabet_def)

lemma index_of_nth: "distinct xs \<Longrightarrow> k < length xs \<Longrightarrow> index_of (xs ! k) xs = Some k"
proof (induction xs arbitrary: k)
  case Nil
  then show ?case by simp
next
  case (Cons x xs)
  then show ?case by (cases k) auto
qed

lemma b64_char_in: "k < 64 \<Longrightarrow> b64_char k \<in> set b64_alphabet"
  by (simp add: b64_char_def length_b64)

lemma b64_special: "CHR ''-'' \<notin> set b64_alphabet" "CHR ''_'' \<notin> set b64_alphabet"
  "CHR ''='' \<notin> set b64_alphabet"
  by (simp_all add: b64_alphabet_def)

lemma b64_index_char: "k < 64 \<Longrightarrow> b64_index (b64_char k) = Some k"
proof -
  assume k: "k < 64"
  from b64_char_in [OF k] b64_special
  have "b64_char k \<noteq> CHR ''-''" "b64_char k \<noteq> CHR ''_''" by auto
  moreover have "index_of (b64_char k) b64_alphabet = Some k"
    unfolding b64_char_def using k by (intro index_of_nth distinct_b64) (simp add: length_b64)
  ultimately show ?thesis by (simp add: b64_index_def)
qed

lemma b64_char_not_pad: "k < 64 \<Longrightarrow> b64_char k \<noteq> CHR ''=''"
  using b64_char_in [of k] b64_special by auto

lemma sextets_char: "k < 64 \<Longrightarrow> b64_sextets (b64_char k # cs) = k # b64_sextets cs"
  by (simp add: b64_index_char b64_char_not_pad)

lemma sextets_recompose:
  fixes n :: nat
  shows "((n div 262144 * 64 + n div 4096 mod 64) * 64 + n div 64 mod 64) * 64 + n mod 64 = n"
proof -
  have a: "n div 4096 = n div 64 div 64"
    using div_mult2_eq [of n 64 64] by simp
  have b: "n div 262144 = n div 64 div 64 div 64"
    using div_mult2_eq [of n 4096 64] a by simp
  show ?thesis unfolding a b by simp
qed

lemma sextets_recompose3:
  fixes n :: nat
  shows "(n div 4096 * 64 + n div 64 mod 64) * 64 + n mod 64 = n"
proof -
  have a: "n div 4096 = n div 64 div 64"
    using div_mult2_eq [of n 64 64] by simp
  show ?thesis unfolding a by simp
qed

lemma bytes3:
  fixes a b c :: nat
  assumes "b < 256" "c < 256"
  shows "((a * 256 + b) * 256 + c) div 65536 = a"
    "((a * 256 + b) * 256 + c) div 256 mod 256 = b"
    "((a * 256 + b) * 256 + c) mod 256 = c"
proof -
  let ?n = "(a * 256 + b) * 256 + c"
  have d: "?n div 256 = a * 256 + b" using assms by simp
  have "?n div 65536 = ?n div 256 div 256"
    using div_mult2_eq [of ?n 256 256] by simp
  with d assms show "?n div 65536 = a" by simp
  from d assms show "?n div 256 mod 256 = b" by simp
  have "?n mod 256 = c mod 256" by (rule mod_mult_self3)
  with assms show "?n mod 256 = c" by simp
qed

lemma bytes2:
  fixes a b :: nat
  assumes "b < 256"
  shows "((a * 256 + b) * 4) div 1024 = a" "((a * 256 + b) * 4) div 4 mod 256 = b"
proof -
  let ?n = "(a * 256 + b) * 4"
  have d: "?n div 4 = a * 256 + b" by simp
  have "?n div 1024 = ?n div 4 div 256"
    using div_mult2_eq [of ?n 4 256] by simp
  with d assms show "?n div 1024 = a" by simp
  from d assms show "?n div 4 mod 256 = b" by simp
qed

lemma small3:
  fixes a b c :: nat
  assumes "a < 256" "b < 256" "c < 256"
  shows "((a * 256 + b) * 256 + c) div 262144 < 64"
  using assms by (simp add: less_mult_imp_div_less)

lemma small2:
  fixes a b :: nat
  assumes "a < 256" "b < 256"
  shows "((a * 256 + b) * 4) div 4096 < 64"
  using assms by (simp add: less_mult_imp_div_less)

lemma small1:
  fixes a :: nat
  assumes "a < 256"
  shows "(a * 16) div 64 < 64"
  using assms by (simp add: less_mult_imp_div_less)

lemma sextets_pad: "b64_sextets (CHR ''='' # cs) = []"
  by simp

lemma of_char_lt256: "(of_char c :: nat) < 256"
  by simp

lemma bytes1:
  fixes a :: nat
  shows "((a * 16) div 64 * 64 + (a * 16) mod 64) div 16 = a"
proof -
  have "(a * 16) div 64 * 64 + (a * 16) mod 64 = a * 16"
    by (rule div_mult_mod_eq)
  then show ?thesis by simp
qed

lemma b64_bytes_sextets_encode: "b64_bytes (b64_sextets (b64_encode bs)) = bs"
proof (induction bs rule: b64_encode.induct)
  case 1
  show ?case by simp
next
  case (2 a)
  let ?n = "(of_char a :: nat) * 16"
  have lt: "?n div 64 < 64" "?n mod 64 < 64"
    by (rule small1) simp_all
  have s: "b64_sextets (b64_encode [a]) = [?n div 64, ?n mod 64]"
    by (simp only: b64_encode.simps Let_def sextets_char [OF lt(1)] sextets_char [OF lt(2)]
          sextets_pad)
  show ?case
    unfolding s by (simp only: b64_bytes.simps bytes1 char_of_char)
next
  case (3 a b)
  let ?n = "((of_char a :: nat) * 256 + of_char b) * 4"
  have lt: "?n div 4096 < 64" "?n div 64 mod 64 < 64" "?n mod 64 < 64"
    by (rule small2) simp_all
  have s: "b64_sextets (b64_encode [a, b]) = [?n div 4096, ?n div 64 mod 64, ?n mod 64]"
    by (simp only: b64_encode.simps Let_def sextets_char [OF lt(1)] sextets_char [OF lt(2)]
          sextets_char [OF lt(3)] sextets_pad)
  show ?case
    unfolding s
    by (simp only: b64_bytes.simps Let_def sextets_recompose3 bytes2 [OF of_char_lt256]
          char_of_char)
next
  case (4 a b c rest)
  let ?n = "((of_char a :: nat) * 256 + of_char b) * 256 + of_char c"
  have lt: "?n div 262144 < 64" "?n div 4096 mod 64 < 64" "?n div 64 mod 64 < 64" "?n mod 64 < 64"
    by (rule small3) simp_all
  have s: "b64_sextets (b64_encode (a # b # c # rest)) =
          ?n div 262144 # ?n div 4096 mod 64 # ?n div 64 mod 64 # ?n mod 64
          # b64_sextets (b64_encode rest)"
    by (simp only: b64_encode.simps Let_def append.simps sextets_char [OF lt(1)]
          sextets_char [OF lt(2)] sextets_char [OF lt(3)] sextets_char [OF lt(4)])
  show ?case
    unfolding s
    by (simp only: b64_bytes.simps Let_def sextets_recompose
          bytes3 [OF of_char_lt256 of_char_lt256] char_of_char append.simps "4.IH")
qed

lemma decode_encode: "decodeCursor (encodeCursor s) = s"
  by (simp add: decodeCursor_def encodeCursor_def b64_decode_def b64_bytes_sextets_encode)

lemma of_char_digit: "d < 10 \<Longrightarrow> (of_char (digit_char d) :: nat) = 48 + d"
  by (simp add: digit_char_def)

lemma digit_val_digit: "d < 10 \<Longrightarrow> digit_val 10 (digit_char d) = Some d"
  by (simp add: digit_val_def of_char_digit Let_def)

lemma ws_len_digit: "d < 10 \<Longrightarrow> ws_len (digit_char d # cs) = 0"
proof -
  assume d: "d < 10"
  have ne: "digit_char d \<noteq> c" if "(of_char c :: nat) < 48" for c
    using that of_char_digit [OF d] by auto
  have ne2: "digit_char d \<noteq> c" if "(of_char c :: nat) > 57" for c
    using that of_char_digit [OF d] d by auto
  show ?thesis
    by (simp add: ws_len_def ascii_ws_def utf8_ws3_def ne ne2)
qed

lemma nat_digits_digits: "c \<in> set (nat_digits n) \<Longrightarrow> \<exists>d<10. c = digit_char d"
proof (induction n rule: nat_digits.induct)
  case (1 n)
  show ?case
  proof (cases "n < 10")
    case True
    with 1(2) show ?thesis by (auto simp: nat_digits.simps [of n])
  next
    case False
    have m: "n mod 10 < 10" by simp
    from False 1(2) have "c \<in> set (nat_digits (n div 10)) \<or> c = digit_char (n mod 10)"
      by (auto simp: nat_digits.simps [of n])
    with 1(1) [OF False] m show ?thesis by blast
  qed
qed

lemma nat_digits_range:
  assumes "c \<in> set (nat_digits n)"
  shows "48 \<le> (of_char c :: nat) \<and> (of_char c :: nat) \<le> 57"
proof -
  from nat_digits_digits [OF assms] obtain d where d: "d < 10" "c = digit_char d" by blast
  from of_char_digit [OF d(1)] d show ?thesis by simp
qed

lemma nat_digits_not_Nil: "nat_digits n \<noteq> []"
  by (subst nat_digits.simps) simp

lemma parse_digits_all:
  "(\<And>c. c \<in> set xs \<Longrightarrow> \<exists>d<10. c = digit_char d) \<Longrightarrow>
   parse_digits 10 (xs @ ys) = map (\<lambda>c. the (digit_val 10 c)) xs @ parse_digits 10 ys"
proof (induction xs)
  case Nil
  show ?case by simp
next
  case (Cons x xs)
  from Cons.prems [of x] obtain d where "d < 10" "x = digit_char d" by auto
  with Cons show ?case by (simp add: digit_val_digit)
qed

lemma nat_digits_value:
  "foldl (\<lambda>a d. a * 10 + d) 0 (map (\<lambda>c. the (digit_val 10 c)) (nat_digits n)) = n"
proof (induction n rule: nat_digits.induct)
  case (1 n)
  show ?case
  proof (cases "n < 10")
    case True
    then show ?thesis by (simp add: nat_digits.simps [of n] digit_val_digit)
  next
    case False
    with 1 show ?thesis
      by (simp add: nat_digits.simps [of n] digit_val_digit)
  qed
qed

lemma round_double_small: "n < 2 ^ 53 \<Longrightarrow> round_double n = Some n"
  by (simp add: round_double_def)

lemma parseInt_nat_digits:
  "parseInt (nat_digits n) = (case round_double n of None \<Rightarrow> PosInf | Some m \<Rightarrow> Num (int m))"
proof -
  obtain c cs where s: "nat_digits n = c # cs"
    using nat_digits_not_Nil [of n] by (cases "nat_digits n") auto
  then obtain d where d: "d < 10" "c = digit_char d"
    using nat_digits_digits [of c n] by auto
  have ws: "skip_ws (nat_digits n) = nat_digits n"
    using ws_len_digit [OF d(1), of cs] s d by (subst skip_ws.simps) simp
  have c1: "take 1 (nat_digits n) \<noteq> ''-''" "take 1 (nat_digits n) \<noteq> ''+''"
    using of_char_digit [OF d(1)] d s by auto
  have x: "CHR ''x'' \<notin> set (nat_digits n)" "CHR ''X'' \<notin> set (nat_digits n)"
    using nat_digits_range [of "CHR ''x''" n] nat_digits_range [of "CHR ''X''" n] by auto
  have hex: "take 2 (nat_digits n) \<noteq> ''0x''" "take 2 (nat_digits n) \<noteq> ''0X''"
    using x in_set_takeD [of _ 2 "nat_digits n"] by fastforce+
  have pd: "parse_digits 10 (nat_digits n) = map (\<lambda>c. the (digit_val 10 c)) (nat_digits n)"
    using parse_digits_all [of "nat_digits n" "[]"] nat_digits_digits by simp
  have ne: "map (\<lambda>c. the (digit_val 10 c)) (nat_digits n) \<noteq> []"
    using nat_digits_not_Nil by simp
  show ?thesis
    unfolding parseInt_def ws Let_def
    by (simp only: c1 hex pd ne nat_digits_value if_False simp_thms)
qed

lemma round_double_1e21: "round_double (10 ^ 21) = Some (10 ^ 21)"
  by (simp add: round_double_def bit_length.simps Let_def)

lemma shortest_at_valid:
  "round_double x = Some x \<Longrightarrow> round_double (shortest_at x e) = Some x"
proof (induction x e rule: shortest_at.induct)
  case (1 x e)
  then show ?case
    by (subst shortest_at.simps) (auto simp: Let_def)
qed

lemma candidate_le:
  assumes "e \<le> 21" and "x < (10::nat) ^ 21"
  shows "(x div 10 ^ e + 1) * 10 ^ e \<le> (10::nat) ^ 21"
proof -
  have split: "(10::nat) ^ 21 = 10 ^ (21 - e) * 10 ^ e"
    using assms(1) by (simp add: power_add [symmetric])
  with assms(2) have "x < 10 ^ (21 - e) * (10::nat) ^ e" by simp
  then have "x div 10 ^ e < (10::nat) ^ (21 - e)"
    by (simp add: less_mult_imp_div_less)
  then have "x div 10 ^ e + 1 \<le> (10::nat) ^ (21 - e)" by simp
  then have "(x div 10 ^ e + 1) * 10 ^ e \<le> 10 ^ (21 - e) * (10::nat) ^ e"
    by (rule mult_le_mono1)
  with split show ?thesis by simp
qed

lemma candidate_less:
  assumes "e \<le> 21" and "x < (10::nat) ^ 21"
    and "round_double ((x div 10 ^ e + 1) * 10 ^ e) = Some x"
  shows "(x div 10 ^ e + 1) * 10 ^ e < (10::nat) ^ 21"
proof (rule ccontr)
  assume "\<not> ?thesis"
  with candidate_le [OF assms(1,2)] have "(x div 10 ^ e + 1) * 10 ^ e = (10::nat) ^ 21"
    by simp
  with assms(3) round_double_1e21 have "x = 10 ^ 21" by simp
  with assms(2) show False by simp
qed

lemma floor_multiple_le: "(x::nat) div p * p \<le> x"
  by simp

lemma shortest_at_less:
  "e \<le> 21 \<Longrightarrow> x < 10 ^ 21 \<Longrightarrow> shortest_at x e < 10 ^ 21"
proof (induction x e rule: shortest_at.induct)
  case (1 x e)
  show ?case
  proof (cases "e = 0")
    case True
    with 1(3) show ?thesis by (subst shortest_at.simps) simp
  next
    case False
    let ?a = "x div 10 ^ e * 10 ^ e"
    let ?b = "(x div 10 ^ e + 1) * 10 ^ e"
    have a: "?a < 10 ^ 21"
      using floor_multiple_le [of x "10 ^ e"] 1(3) by linarith
    have b: "?b < 10 ^ 21" if "round_double ?b = Some x"
      using candidate_less [OF 1(2,3) that] .
    have r: "shortest_at x (e - 1) < 10 ^ 21"
      if "\<not> round_double ?a = Some x" "\<not> round_double ?b = Some x"
      using 1(1) [OF False refl refl refl refl refl refl _ that] that 1(2,3) by simp
    show ?thesis
      using False a b r
      by (subst shortest_at.simps) (simp add: Let_def)
  qed
qed

lemma length_nat_digits_le:
  "n < 10 ^ m \<Longrightarrow> 0 < m \<Longrightarrow> length (nat_digits n) \<le> m"
proof (induction n arbitrary: m rule: nat_digits.induct)
  case (1 n)
  show ?case
  proof (cases "n < 10")
    case True
    with 1(3) show ?thesis by (simp add: nat_digits.simps [of n])
  next
    case False
    have m: "1 < m"
    proof (rule ccontr)
      assume "\<not> 1 < m"
      with 1(3) have "m = 1" by simp
      with 1(2) False show False by simp
    qed
    then obtain k where k: "m = Suc k" "0 < k" by (cases m) auto
    from 1(2) k have "n div 10 < 10 ^ k"
      by (simp add: less_mult_imp_div_less mult.commute)
    from 1(1) [OF False this k(2)] False k show ?thesis
      by (simp add: nat_digits.simps [of n])
  qed
qed

lemma shortest_decimal_less:
  assumes "x < 10 ^ 21"
  shows "shortest_decimal x < 10 ^ 21"
proof -
  from length_nat_digits_le [OF assms] have "length (nat_digits x) - 1 \<le> 21" by simp
  from shortest_at_less [OF this assms] show ?thesis
    by (simp add: shortest_decimal_def)
qed

lemma parseInt_print_double:
  assumes "round_double n = Some n" and "n < 10 ^ 21"
  shows "parseInt (print_double n) = Num (int n)"
proof (cases "n < 2 ^ 53")
  case True
  then show ?thesis
    by (simp add: print_double_def parseInt_nat_digits round_double_small)
next
  case False
  have v: "round_double (shortest_decimal n) = Some n"
    using shortest_at_valid [OF assms(1)] by (simp add: shortest_decimal_def)
  from False shortest_decimal_less [OF assms(2)] v show ?thesis
    by (simp add: print_double_def Let_def parseInt_nat_digits)
qed

lemma toString_nat:
  "round_double n = Some n \<Longrightarrow> js_toString (Num (int n)) = print_double n"
  by (simp add: js_toString_def)

lemmas cursor_eval =
  encodeCursor_def decodeCursor_def b64_decode_def b64_index_def b64_char_def
  b64_alphabet_def Let_def char_of_eq_iff take_bit_eq_mod parseInt_def skip_ws.simps
  ws_len_def ascii_ws_def utf8_ws3_def digit_val_def js_toString_def nat_digits.simps
  digit_char_def round_double_def print_double_def

text \<open>
  C5, as the code has it. The offset \<open>10^21\<close> is a double; \<open>toString\<close> prints it as
  \<open>1e+21\<close>, and the cursor of that text decodes to 1.
\<close>

theorem cursor_roundtrip_counterexample:
  "js_toString (Num 1000000000000000000000) = ''1e+21''
   \<and> parseInt (decodeCursor (encodeCursor (js_toString (Num 1000000000000000000000)))) = Num 1"
proof -
  have r: "round_double 1000000000000000000000 = Some 1000000000000000000000"
    using round_double_1e21 by simp
  have r2: "round_double 2000000000000000000000 \<noteq> Some 1000000000000000000000"
    by (simp add: round_double_def bit_length.simps Let_def)
  have d: "nat_digits 1000000000000000000000 = ''1000000000000000000000''"
    by (simp add: nat_digits.simps digit_char_def char_of_eq_iff take_bit_eq_mod)
  have l: "length (nat_digits 1000000000000000000000) - 1 = 21"
    by (simp add: d)
  have s21: "shortest_at 1000000000000000000000 21 = 1000000000000000000000"
    by (simp add: shortest_at.simps [of _ 21] Let_def r r2)
  have s: "shortest_decimal 1000000000000000000000 = 1000000000000000000000"
    by (simp only: shortest_decimal_def l s21)
  have e: "exponent_form 1000000000000000000000 = ''1e+21''"
    by (simp add: exponent_form_def d Let_def nat_digits.simps digit_char_def char_of_eq_iff
          take_bit_eq_mod)
  have t: "js_toString (Num 1000000000000000000000) = ''1e+21''"
    by (simp add: js_toString_def r print_double_def s e)
  have p: "parseInt ''1e+21'' = Num 1"
    by (simp add: cursor_eval)
  show ?thesis
    unfolding t decode_encode using p by simp
qed

text \<open>
  C5, amended. The cursor of any text decodes to that text. For every non-negative
  integer offset \<open>n\<close> that is a JavaScript number (a double) below \<open>10^21\<close>, and so for
  every integer below \<open>2^53\<close>, \<open>parseInt\<close> of the decoded cursor of \<open>n.toString()\<close> is
  \<open>n\<close>.
\<close>

theorem cursor_roundtrip_below_1e21:
  "decodeCursor (encodeCursor s) = s
   \<and> (round_double n = Some n \<and> n < 10 ^ 21 \<longrightarrow>
        parseInt (decodeCursor (encodeCursor (js_toString (Num (int n))))) = Num (int n))
   \<and> (n < 2 ^ 53 \<longrightarrow>
        parseInt (decodeCursor (encodeCursor (js_toString (Num (int n))))) = Num (int n))"
proof -
  have a: "parseInt (decodeCursor (encodeCursor (js_toString (Num (int n))))) = Num (int n)"
    if "round_double n = Some n" "n < 10 ^ 21"
    using that by (simp add: decode_encode toString_nat parseInt_print_double)
  have b: "parseInt (decodeCursor (encodeCursor (js_toString (Num (int n))))) = Num (int n)"
    if "n < 2 ^ 53"
  proof -
    from that have "n < 10 ^ 21" by simp
    with round_double_small [OF that] show ?thesis by (rule a)
  qed
  from decode_encode [of s] a b show ?thesis by blast
qed

lemma toString_25: "js_toString (Num (int 25)) = ''25''"
  by (simp add: cursor_eval)

lemma encode_25: "encodeCursor ''25'' = ''MjU=''"
  by (simp add: cursor_eval)

theorem cursor_roundtrip_below_1e21_witness:
  "encodeCursor ''25'' = ''MjU='' \<and> decodeCursor ''MjU='' = ''25''
   \<and> (25 :: nat) < 2 ^ 53
   \<and> parseInt (decodeCursor ''MjU='') = Num 25
   \<and> round_double 18446744073709551616 = Some 18446744073709551616
   \<and> (18446744073709551616 :: nat) < 10 ^ 21
   \<and> parseInt (decodeCursor (encodeCursor (js_toString (Num 18446744073709551616))))
       = Num 18446744073709551616"
proof -
  have h1: "(25 :: nat) < 2 ^ 53" by simp
  have h2: "round_double 18446744073709551616 = Some 18446744073709551616"
    by (simp add: round_double_def bit_length.simps Let_def)
  have h3: "(18446744073709551616 :: nat) < 10 ^ 21" by simp
  note t1 = cursor_roundtrip_below_1e21 [of "''25''" 25, unfolded toString_25, unfolded encode_25
               of_nat_numeral]
  note t2 = cursor_roundtrip_below_1e21 [of "''25''" 18446744073709551616, unfolded of_nat_numeral]
  from t1 h1 have c1: "parseInt (decodeCursor ''MjU='') = Num 25" by blast
  from t1 have c0: "decodeCursor ''MjU='' = ''25''" by blast
  from t2 h2 h3
  have c2: "parseInt (decodeCursor (encodeCursor (js_toString (Num 18446744073709551616))))
       = Num 18446744073709551616" by blast
  from encode_25 c0 h1 c1 h2 h3 c2 show ?thesis by blast
qed

section \<open>The page built from an offset, a limit, the rows and the total count\<close>






section \<open>The page limit\<close>

lemmas schema_simps =
  CursorInputSchema_parse_def CursorInputSchema_issues_def ProductFilterSchema_parse_def
  ProductFilterSchema_issues_def zod_string_def zod_boolean_def zod_positive_def
  zod_positive_max100_def or_default_def





lemma filter_parse_cases:
  "(\<exists>msgs. ProductFilterSchema_parse f = Inl (ZodError msgs))
   \<or> (\<exists>fl. ProductFilterSchema_parse f = Inr fl)"
  by (simp add: ProductFilterSchema_parse_def split: nullable.splits)

lemma cursor_parse_cases:
  "(\<exists>msgs. CursorInputSchema_parse p = Inl (ZodError msgs))
   \<or> (\<exists>vp. CursorInputSchema_parse p = Inr vp)"
  by (simp add: CursorInputSchema_parse_def split: nullable.splits)




section \<open>An after-cursor that is not the cursor of an offset\<close>

text \<open>
  C3, as the code has it. The cursor \<open>YWJj\<close> is the base64 text of \<open>abc\<close>, which is no
  integer: the offset is NaN, no error is raised, and the query returns the page that the
  store gives for that offset.
\<close>

theorem garbage_cursor_counterexample:
  "decodeCursor ''YWJj'' = ''abc''
   \<and> page_offset after_abc = NaN
   \<and> products dao_no_products Undefined (Val after_abc)
       = Inr \<lparr>edges = [],
              pageInfo = \<lparr>hasNextPage = False, hasPreviousPage = False,
                          startCursor = None, endCursor = None\<rparr>,
              totalCount = 0\<rparr>"
  by (simp add: products_def after_abc_def empty_filter_def schema_simps
        dao_no_products_def connection_def page_offset_def page_limit_def cursor_eval)

text \<open>
  C3, amended. No string makes the cursor an error. Whether the pagination input passes
  its schema does not depend on the string given as \<open>after\<close>; the offset of a request
  with the after-cursor \<open>a\<close> is \<open>parseInt (decodeCursor a)\<close>, a number or NaN (0 for the
  empty string); with inputs that pass the schemas the resolver returns the page that the
  store gives for that offset; and \<open>products\<close> fails only when the filter or the
  pagination input fails its schema (a \<open>first\<close> or \<open>last\<close> out of range, an explicit
  null) or the store throws.
\<close>

theorem cursor_never_rejected:
  "page_offset (p\<lparr>pg_after := Val a\<rparr>) = (if a = [] then Num 0 else parseInt (decodeCursor a))
   \<and> isl (CursorInputSchema_parse (Val (p\<lparr>pg_after := Val a\<rparr>)))
       = isl (CursorInputSchema_parse (Val (p\<lparr>pg_after := Undefined\<rparr>)))
   \<and> (ProductFilterSchema_parse (or_default empty_filter farg) = Inr vf
        \<and> CursorInputSchema_parse (or_default empty_pagination parg) = Inr vp
        \<and> pdao [] (dao_filters vf) (page_limit vp) (page_offset vp) = Inr (rows, tc)
        \<longrightarrow> products pdao farg parg
              = Inr (connection transformProduct (page_offset vp) (page_limit vp) rows tc))
   \<and> (user ctx = Some u
        \<and> CursorInputSchema_parse (or_default empty_pagination parg) = Inr vp
        \<and> odao (userId u) (page_limit vp) (page_offset vp) = Inr (orows, tc)
        \<longrightarrow> myOrders up odao ctx parg
              = Inr (connection (transformOrder up) (page_offset vp) (page_limit vp) orows tc))
   \<and> (products pdao farg parg = Inl e \<longrightarrow>
        (\<exists>msgs. ProductFilterSchema_parse (or_default empty_filter farg) = Inl (ZodError msgs))
        \<or> (\<exists>msgs. CursorInputSchema_parse (or_default empty_pagination parg)
                    = Inl (ZodError msgs))
        \<or> (\<exists>f' p' e'. ProductFilterSchema_parse (or_default empty_filter farg) = Inr f'
              \<and> CursorInputSchema_parse (or_default empty_pagination parg) = Inr p'
              \<and> pdao [] (dao_filters f') (page_limit p') (page_offset p') = Inl e'))"
proof -
  have a: "page_offset (p\<lparr>pg_after := Val a\<rparr>)
             = (if a = [] then Num 0 else parseInt (decodeCursor a))"
    by (simp add: page_offset_def)
  have i: "isl (CursorInputSchema_parse (Val (p\<lparr>pg_after := Val a\<rparr>)))
       = isl (CursorInputSchema_parse (Val (p\<lparr>pg_after := Undefined\<rparr>)))"
    by (simp add: CursorInputSchema_parse_def CursorInputSchema_issues_def zod_string_def)
  have b: "products pdao farg parg
              = Inr (connection transformProduct (page_offset vp) (page_limit vp) rows tc)"
    if "ProductFilterSchema_parse (or_default empty_filter farg) = Inr vf"
       "CursorInputSchema_parse (or_default empty_pagination parg) = Inr vp"
       "pdao [] (dao_filters vf) (page_limit vp) (page_offset vp) = Inr (rows, tc)"
    using that by (simp add: products_def Let_def)
  have c: "myOrders up odao ctx parg
              = Inr (connection (transformOrder up) (page_offset vp) (page_limit vp) orows tc)"
    if "user ctx = Some u" "CursorInputSchema_parse (or_default empty_pagination parg) = Inr vp"
       "odao (userId u) (page_limit vp) (page_offset vp) = Inr (orows, tc)"
    using that by (simp add: myOrders_def Let_def requireAuth_def)
  have d: "(\<exists>msgs. ProductFilterSchema_parse (or_default empty_filter farg) = Inl (ZodError msgs))
        \<or> (\<exists>msgs. CursorInputSchema_parse (or_default empty_pagination parg)
                    = Inl (ZodError msgs))
        \<or> (\<exists>f' p' e'. ProductFilterSchema_parse (or_default empty_filter farg) = Inr f'
              \<and> CursorInputSchema_parse (or_default empty_pagination parg) = Inr p'
              \<and> pdao [] (dao_filters f') (page_limit p') (page_offset p') = Inl e')"
    if h: "products pdao farg parg = Inl e"
  proof (rule ccontr)
    assume n: "\<not> ?thesis"
    with filter_parse_cases [of "or_default empty_filter farg"] obtain f'
      where f: "ProductFilterSchema_parse (or_default empty_filter farg) = Inr f'" by blast
    from n cursor_parse_cases [of "or_default empty_pagination parg"] obtain p'
      where c: "CursorInputSchema_parse (or_default empty_pagination parg) = Inr p'" by blast
    from n f c obtain r where "pdao [] (dao_filters f') (page_limit p') (page_offset p') = Inr r"
      by (cases "pdao [] (dao_filters f') (page_limit p') (page_offset p')") auto
    with f c h show False
      by (cases r) (simp add: products_def Let_def)
  qed
  from a i b c d show ?thesis by blast
qed

theorem cursor_never_rejected_witness:
  "page_offset (empty_pagination\<lparr>pg_after := Val ''YWJj''\<rparr>) = NaN
   \<and> ProductFilterSchema_parse (or_default empty_filter Undefined) = Inr empty_filter
   \<and> CursorInputSchema_parse (or_default empty_pagination (Val after_abc)) = Inr after_abc
   \<and> dao_no_products [] (dao_filters empty_filter) (page_limit after_abc) (page_offset after_abc)
       = Inr ([], 0)
   \<and> products dao_no_products Undefined (Val after_abc)
       = Inr (connection transformProduct NaN 20 [] 0)
   \<and> user \<lparr>user = Some alice\<rparr> = Some alice
   \<and> dao_no_orders (userId alice) (page_limit after_abc) (page_offset after_abc) = Inr ([], 0)
   \<and> myOrders (\<lambda>s. s) dao_no_orders \<lparr>user = Some alice\<rparr> (Val after_abc)
       = Inr (connection (transformOrder (\<lambda>s. s)) NaN 20 [] 0)
   \<and> products dao_no_products Undefined (Val after_abc_before_null)
       = Inl (Error ''Validation error: Expected string, received null'')
   \<and> (\<exists>msgs. CursorInputSchema_parse (or_default empty_pagination (Val after_abc_before_null))
               = Inl (ZodError msgs))"
proof -
  have o: "page_offset after_abc = NaN" "page_limit after_abc = 20"
    by (simp_all add: after_abc_def page_offset_def page_limit_def cursor_eval)
  have o': "parseInt (decodeCursor ''YWJj'') = NaN"
    by (simp add: cursor_eval)
  have f: "ProductFilterSchema_parse (or_default empty_filter Undefined) = Inr empty_filter"
    by (simp add: schema_simps empty_filter_def)
  have c: "CursorInputSchema_parse (or_default empty_pagination (Val after_abc)) = Inr after_abc"
    by (simp add: schema_simps after_abc_def)
  have d: "dao_no_products [] (dao_filters empty_filter) (page_limit after_abc)
             (page_offset after_abc) = Inr ([], 0)"
    by (simp add: dao_no_products_def)
  have d': "dao_no_orders (userId alice) (page_limit after_abc) (page_offset after_abc)
             = Inr ([], 0)"
    by (simp add: dao_no_orders_def)
  have u: "user \<lparr>user = Some alice\<rparr> = Some alice" by simp
  have r: "products dao_no_products Undefined (Val after_abc_before_null)
       = Inl (Error ''Validation error: Expected string, received null'')"
    by (simp add: products_def after_abc_before_null_def empty_filter_def schema_simps
          rethrow_def)
  have nf: "\<not> (\<exists>msgs. ProductFilterSchema_parse (or_default empty_filter Undefined)
                         = Inl (ZodError msgs))"
    using f by simp
  have nd: "\<not> (\<exists>f' p' e'. ProductFilterSchema_parse (or_default empty_filter Undefined) = Inr f'
              \<and> CursorInputSchema_parse (or_default empty_pagination (Val after_abc_before_null))
                  = Inr p'
              \<and> dao_no_products [] (dao_filters f') (page_limit p') (page_offset p') = Inl e')"
    by (simp add: dao_no_products_def)
  note t = cursor_never_rejected
         [where p = empty_pagination and a = "''YWJj''" and farg = Undefined
            and vf = empty_filter and parg = "Val after_abc" and vp = after_abc
            and pdao = dao_no_products and rows = "[]" and tc = 0
            and ctx = "\<lparr>user = Some alice\<rparr>" and u = alice and odao = dao_no_orders
            and orows = "[]" and up = "\<lambda>s. s"]
  from t f c d d' u
  have pr: "products dao_no_products Undefined (Val after_abc)
       = Inr (connection transformProduct NaN 20 [] 0)"
    and mo: "myOrders (\<lambda>s. s) dao_no_orders \<lparr>user = Some alice\<rparr> (Val after_abc)
       = Inr (connection (transformOrder (\<lambda>s. s)) NaN 20 [] 0)"
    by (simp_all add: o)
  from t o' have po: "page_offset (empty_pagination\<lparr>pg_after := Val ''YWJj''\<rparr>) = NaN"
    by simp
  from cursor_never_rejected
         [where farg = Undefined and parg = "Val after_abc_before_null"
            and pdao = dao_no_products
            and e = "Error ''Validation error: Expected string, received null''"]
       r nf nd
  have z: "\<exists>msgs. CursorInputSchema_parse (or_default empty_pagination (Val after_abc_before_null))
               = Inl (ZodError msgs)"
    by blast
  from po f c d pr u d' mo r z show ?thesis
    by (intro conjI)
qed

section \<open>The default window\<close>




section \<open>The batch functions keep the order of the keys\<close>

lemma batch_one:
  assumes "i < length ids"
  shows "map (\<lambda>k. find (\<lambda>r. key r = k) rows) ids ! i = find (\<lambda>r. key r = ids ! i) rows"
    and "(map (\<lambda>k. find (\<lambda>r. key r = k) rows) ids ! i = None)
           = (\<forall>r \<in> set rows. key r \<noteq> ids ! i)"
    and "\<forall>r. map (\<lambda>k. find (\<lambda>r. key r = k) rows) ids ! i = Some r
           \<longrightarrow> r \<in> set rows \<and> key r = ids ! i"
  using assms by (auto simp: find_None_iff find_Some_iff)

lemma batch_many:
  assumes "i < length ids"
  shows "map (\<lambda>k. filter (\<lambda>r. key r = k) rows) ids ! i = filter (\<lambda>r. key r = ids ! i) rows"
  using assms by simp

lemma batch_one_spec:
  "\<exists>rs. (Inr (map (\<lambda>k. find (\<lambda>r. key r = k) rows) ids) :: error + 'a option list) = Inr rs
      \<and> length rs = length ids
      \<and> (i < length ids \<longrightarrow>
            rs ! i = find (\<lambda>x. key x = ids ! i) rows
            \<and> ((rs ! i = None) = (\<forall>x \<in> set rows. key x \<noteq> ids ! i))
            \<and> (\<forall>x. rs ! i = Some x \<longrightarrow> x \<in> set rows \<and> key x = ids ! i))"
proof (intro exI conjI impI)
  show "(Inr (map (\<lambda>k. find (\<lambda>r. key r = k) rows) ids) :: error + 'a option list)
          = Inr (map (\<lambda>k. find (\<lambda>r. key r = k) rows) ids)" by (rule refl)
  show "length (map (\<lambda>k. find (\<lambda>r. key r = k) rows) ids) = length ids" by simp
next
  assume "i < length ids"
  then show "map (\<lambda>k. find (\<lambda>r. key r = k) rows) ids ! i = find (\<lambda>x. key x = ids ! i) rows"
    by (rule batch_one(1))
next
  assume "i < length ids"
  then show "(map (\<lambda>k. find (\<lambda>r. key r = k) rows) ids ! i = None)
           = (\<forall>x \<in> set rows. key x \<noteq> ids ! i)"
    by (rule batch_one(2))
next
  assume "i < length ids"
  then show "\<forall>x. map (\<lambda>k. find (\<lambda>r. key r = k) rows) ids ! i = Some x
           \<longrightarrow> x \<in> set rows \<and> key x = ids ! i"
    by (rule batch_one(3))
qed

lemma batch_many_spec:
  "\<exists>rs. (Inr (map (\<lambda>k. filter (\<lambda>r. key r = k) rows) ids) :: error + 'a list list) = Inr rs
      \<and> length rs = length ids
      \<and> (i < length ids \<longrightarrow> rs ! i = filter (\<lambda>x. key x = ids ! i) rows)"
proof (intro exI conjI impI)
  show "(Inr (map (\<lambda>k. filter (\<lambda>r. key r = k) rows) ids) :: error + 'a list list)
          = Inr (map (\<lambda>k. filter (\<lambda>r. key r = k) rows) ids)" by (rule refl)
  show "length (map (\<lambda>k. filter (\<lambda>r. key r = k) rows) ids) = length ids" by simp
next
  assume "i < length ids"
  then show "map (\<lambda>k. filter (\<lambda>r. key r = k) rows) ids ! i = filter (\<lambda>x. key x = ids ! i) rows"
    by (rule batch_many)
qed

text \<open>
  C6. When the fetch returns rows, each batch function returns a list as long as the list
  of keys. For \<open>userById\<close> and \<open>productsByIds\<close> the \<open>i\<close>-th result is the first row
  whose id is the \<open>i\<close>-th key: null exactly when no row has that id, and otherwise a
  fetched row with that id. For the five one-to-many loaders the \<open>i\<close>-th result is the
  list of the fetched rows whose relationship key is the \<open>i\<close>-th key, in the order of the
  fetch.
\<close>

theorem loaders_key_order:
  "(fu ids = Inr users \<longrightarrow>
      (\<exists>rs. userById fu ids = Inr rs \<and> length rs = length ids
         \<and> (i < length ids \<longrightarrow>
               rs ! i = find (\<lambda>x. u_id x = ids ! i) users
               \<and> ((rs ! i = None) = (\<forall>x \<in> set users. u_id x \<noteq> ids ! i))
               \<and> (\<forall>x. rs ! i = Some x \<longrightarrow> x \<in> set users \<and> u_id x = ids ! i))))
   \<and> (fp ids = Inr prods \<longrightarrow>
      (\<exists>rs. productsByIds fp ids = Inr rs \<and> length rs = length ids
         \<and> (i < length ids \<longrightarrow>
               rs ! i = find (\<lambda>x. p_id x = ids ! i) prods
               \<and> ((rs ! i = None) = (\<forall>x \<in> set prods. p_id x \<noteq> ids ! i))
               \<and> (\<forall>x. rs ! i = Some x \<longrightarrow> x \<in> set prods \<and> p_id x = ids ! i))))
   \<and> (fs ids = Inr sold \<longrightarrow>
      (\<exists>rs. productsBySeller fs ids = Inr rs \<and> length rs = length ids
         \<and> (i < length ids \<longrightarrow> rs ! i = filter (\<lambda>x. p_seller_id x = ids ! i) sold)))
   \<and> (fo ids = Inr orders \<longrightarrow>
      (\<exists>rs. ordersByUser fo ids = Inr rs \<and> length rs = length ids
         \<and> (i < length ids \<longrightarrow> rs ! i = filter (\<lambda>x. o_user_id x = ids ! i) orders)))
   \<and> (fi ids = Inr items \<longrightarrow>
      (\<exists>rs. orderItemsByOrder fi ids = Inr rs \<and> length rs = length ids
         \<and> (i < length ids \<longrightarrow> rs ! i = filter (\<lambda>x. oi_order_id x = ids ! i) items)))
   \<and> (fr ids = Inr reviews \<longrightarrow>
      (\<exists>rs. reviewsByProduct fr ids = Inr rs \<and> length rs = length ids
         \<and> (i < length ids \<longrightarrow> rs ! i = filter (\<lambda>x. r_product_id x = ids ! i) reviews)))
   \<and> (fc ids = Inr carts \<longrightarrow>
      (\<exists>rs. cartItemsByUser fc ids = Inr rs \<and> length rs = length ids
         \<and> (i < length ids \<longrightarrow> rs ! i = filter (\<lambda>x. ci_user_id x = ids ! i) carts)))"
proof -
  have 1: "\<exists>rs. userById fu ids = Inr rs \<and> length rs = length ids
         \<and> (i < length ids \<longrightarrow>
               rs ! i = find (\<lambda>x. u_id x = ids ! i) users
               \<and> ((rs ! i = None) = (\<forall>x \<in> set users. u_id x \<noteq> ids ! i))
               \<and> (\<forall>x. rs ! i = Some x \<longrightarrow> x \<in> set users \<and> u_id x = ids ! i))"
    if h: "fu ids = Inr users"
    unfolding userById_def h sum.case by (rule batch_one_spec)
  have 2: "\<exists>rs. productsByIds fp ids = Inr rs \<and> length rs = length ids
         \<and> (i < length ids \<longrightarrow>
               rs ! i = find (\<lambda>x. p_id x = ids ! i) prods
               \<and> ((rs ! i = None) = (\<forall>x \<in> set prods. p_id x \<noteq> ids ! i))
               \<and> (\<forall>x. rs ! i = Some x \<longrightarrow> x \<in> set prods \<and> p_id x = ids ! i))"
    if h: "fp ids = Inr prods"
    unfolding productsByIds_def h sum.case by (rule batch_one_spec)
  have 3: "\<exists>rs. productsBySeller fs ids = Inr rs \<and> length rs = length ids
         \<and> (i < length ids \<longrightarrow> rs ! i = filter (\<lambda>x. p_seller_id x = ids ! i) sold)"
    if h: "fs ids = Inr sold"
    unfolding productsBySeller_def h sum.case by (rule batch_many_spec)
  have 4: "\<exists>rs. ordersByUser fo ids = Inr rs \<and> length rs = length ids
         \<and> (i < length ids \<longrightarrow> rs ! i = filter (\<lambda>x. o_user_id x = ids ! i) orders)"
    if h: "fo ids = Inr orders"
    unfolding ordersByUser_def h sum.case by (rule batch_many_spec)
  have 5: "\<exists>rs. orderItemsByOrder fi ids = Inr rs \<and> length rs = length ids
         \<and> (i < length ids \<longrightarrow> rs ! i = filter (\<lambda>x. oi_order_id x = ids ! i) items)"
    if h: "fi ids = Inr items"
    unfolding orderItemsByOrder_def h sum.case by (rule batch_many_spec)
  have 6: "\<exists>rs. reviewsByProduct fr ids = Inr rs \<and> length rs = length ids
         \<and> (i < length ids \<longrightarrow> rs ! i = filter (\<lambda>x. r_product_id x = ids ! i) reviews)"
    if h: "fr ids = Inr reviews"
    unfolding reviewsByProduct_def h sum.case by (rule batch_many_spec)
  have 7: "\<exists>rs. cartItemsByUser fc ids = Inr rs \<and> length rs = length ids
         \<and> (i < length ids \<longrightarrow> rs ! i = filter (\<lambda>x. ci_user_id x = ids ! i) carts)"
    if h: "fc ids = Inr carts"
    unfolding cartItemsByUser_def h sum.case by (rule batch_many_spec)
  show ?thesis
    by (intro conjI impI) (erule 1 2 3 4 5 6 7)+
qed

theorem loaders_key_order_witness:
  "(1 :: nat) < length demo_keys \<and> demo_keys ! 1 = ''k9'' \<and> demo_keys ! 0 = ''k2''
   \<and> find (\<lambda>x. u_id x = ''k9'') demo_users = None
   \<and> (\<exists>rs. userById (\<lambda>ks. Inr demo_users) demo_keys = Inr rs
          \<and> length rs = length demo_keys \<and> rs ! 1 = None)
   \<and> (\<exists>rs. productsByIds (\<lambda>ks. Inr demo_products) demo_keys = Inr rs
          \<and> length rs = length demo_keys
          \<and> rs ! 0 = find (\<lambda>x. p_id x = demo_keys ! 0) demo_products)
   \<and> find (\<lambda>x. p_id x = ''k2'') demo_products = Some (demo_product ''k2'' ''s1'')
   \<and> (\<exists>rs. productsBySeller (\<lambda>ks. Inr demo_sold) demo_keys = Inr rs
          \<and> length rs = length demo_keys
          \<and> rs ! 0 = filter (\<lambda>x. p_seller_id x = demo_keys ! 0) demo_sold)
   \<and> filter (\<lambda>x. p_seller_id x = ''k2'') demo_sold
       = [demo_product ''p1'' ''k2'', demo_product ''p3'' ''k2'']
   \<and> (\<exists>rs. ordersByUser (\<lambda>ks. Inr demo_orders) demo_keys = Inr rs
          \<and> length rs = length demo_keys
          \<and> rs ! 0 = filter (\<lambda>x. o_user_id x = demo_keys ! 0) demo_orders)
   \<and> (\<exists>rs. orderItemsByOrder (\<lambda>ks. Inr demo_items) demo_keys = Inr rs
          \<and> length rs = length demo_keys
          \<and> rs ! 0 = filter (\<lambda>x. oi_order_id x = demo_keys ! 0) demo_items)
   \<and> (\<exists>rs. reviewsByProduct (\<lambda>ks. Inr demo_reviews) demo_keys = Inr rs
          \<and> length rs = length demo_keys
          \<and> rs ! 0 = filter (\<lambda>x. r_product_id x = demo_keys ! 0) demo_reviews)
   \<and> (\<exists>rs. cartItemsByUser (\<lambda>ks. Inr demo_carts) demo_keys = Inr rs
          \<and> length rs = length demo_keys
          \<and> rs ! 0 = filter (\<lambda>x. ci_user_id x = demo_keys ! 0) demo_carts)"
proof -
  have k: "(1 :: nat) < length demo_keys" "(0 :: nat) < length demo_keys"
    "demo_keys ! 1 = ''k9''" "demo_keys ! 0 = ''k2''"
    by (simp_all add: demo_keys_def)
  have f: "find (\<lambda>x. u_id x = ''k9'') demo_users = None"
    by (simp add: demo_users_def demo_user_def)
  have g: "find (\<lambda>x. p_id x = ''k2'') demo_products = Some (demo_product ''k2'' ''s1'')"
    by (simp add: demo_products_def demo_product_def)
  have h: "filter (\<lambda>x. p_seller_id x = ''k2'') demo_sold
       = [demo_product ''p1'' ''k2'', demo_product ''p3'' ''k2'']"
    by (simp add: demo_sold_def demo_product_def)
  note t = loaders_key_order
             [where ids = demo_keys
                and fu = "\<lambda>ks. Inr demo_users" and users = demo_users
                and fp = "\<lambda>ks. Inr demo_products" and prods = demo_products
                and fs = "\<lambda>ks. Inr demo_sold" and sold = demo_sold
                and fo = "\<lambda>ks. Inr demo_orders" and orders = demo_orders
                and fi = "\<lambda>ks. Inr demo_items" and items = demo_items
                and fr = "\<lambda>ks. Inr demo_reviews" and reviews = demo_reviews
                and fc = "\<lambda>ks. Inr demo_carts" and carts = demo_carts]
  from t [where i = 1] k(1) f
  have u: "\<exists>rs. userById (\<lambda>ks. Inr demo_users) demo_keys = Inr rs
          \<and> length rs = length demo_keys \<and> rs ! 1 = None"
    unfolding k(3) by auto
  from t [where i = 0] k(2) u k f g h show ?thesis
    by auto
qed

end
